theory Spec2Isabelle
  imports Complex_Main
begin

section \<open>Numbers\<close>

text \<open>
  The animator computes with JavaScript numbers. Finite numbers are modelled as reals
  (rounding and the sign of zero are not modelled); the three values that are not finite
  are kept apart, since division, remainder and arithmetic on an unset field produce them.
  The arguments a caller passes (delta time, speed, offsets, clip lengths, weights) are
  finite and are plain reals.
\<close>

datatype jsnum = Num real | PosInf | NegInf | NaN

fun jneg :: "jsnum \<Rightarrow> jsnum" where
  "jneg (Num a) = Num (- a)"
| "jneg PosInf = NegInf"
| "jneg NegInf = PosInf"
| "jneg NaN = NaN"

fun jadd :: "jsnum \<Rightarrow> jsnum \<Rightarrow> jsnum" where
  "jadd NaN _ = NaN"
| "jadd _ NaN = NaN"
| "jadd (Num a) (Num b) = Num (a + b)"
| "jadd PosInf NegInf = NaN"
| "jadd NegInf PosInf = NaN"
| "jadd PosInf _ = PosInf"
| "jadd NegInf _ = NegInf"
| "jadd _ PosInf = PosInf"
| "jadd _ NegInf = NegInf"

definition jsub :: "jsnum \<Rightarrow> jsnum \<Rightarrow> jsnum" where
  "jsub a b = jadd a (jneg b)"

definition inf_of_sign :: "real \<Rightarrow> jsnum" where
  "inf_of_sign s = (if s = 0 then NaN else if 0 < s then PosInf else NegInf)"

fun jmul :: "jsnum \<Rightarrow> jsnum \<Rightarrow> jsnum" where
  "jmul NaN _ = NaN"
| "jmul _ NaN = NaN"
| "jmul (Num a) (Num b) = Num (a * b)"
| "jmul (Num a) PosInf = inf_of_sign a"
| "jmul (Num a) NegInf = inf_of_sign (- a)"
| "jmul PosInf (Num b) = inf_of_sign b"
| "jmul NegInf (Num b) = inf_of_sign (- b)"
| "jmul PosInf PosInf = PosInf"
| "jmul NegInf NegInf = PosInf"
| "jmul PosInf NegInf = NegInf"
| "jmul NegInf PosInf = NegInf"

text \<open>Division: a zero divisor gives an infinity, or NaN for \<open>0 / 0\<close>.\<close>

fun jdiv :: "jsnum \<Rightarrow> jsnum \<Rightarrow> jsnum" where
  "jdiv NaN _ = NaN"
| "jdiv _ NaN = NaN"
| "jdiv (Num a) (Num b) = (if b = 0 then inf_of_sign a else Num (a / b))"
| "jdiv (Num a) PosInf = Num 0"
| "jdiv (Num a) NegInf = Num 0"
| "jdiv PosInf (Num b) = (if 0 \<le> b then PosInf else NegInf)"
| "jdiv NegInf (Num b) = (if 0 \<le> b then NegInf else PosInf)"
| "jdiv PosInf _ = NaN"
| "jdiv NegInf _ = NaN"

definition trunc :: "real \<Rightarrow> real" where
  "trunc r = (if 0 \<le> r then of_int \<lfloor>r\<rfloor> else of_int \<lceil>r\<rceil>)"

text \<open>The remainder \<open>x % y\<close> by a finite \<open>y\<close>: the sign of the dividend, NaN when \<open>y\<close> is 0.\<close>

fun jrem :: "jsnum \<Rightarrow> real \<Rightarrow> jsnum" where
  "jrem (Num a) c = (if c = 0 then NaN else Num (a - c * trunc (a / c)))"
| "jrem _ c = NaN"

text \<open>The comparisons \<open>x > c\<close> and \<open>x >= c\<close> with a finite \<open>c\<close>; NaN compares false.\<close>

fun jgt :: "jsnum \<Rightarrow> real \<Rightarrow> bool" where
  "jgt (Num a) c = (c < a)"
| "jgt PosInf c = True"
| "jgt NegInf c = False"
| "jgt NaN c = False"

fun jge :: "jsnum \<Rightarrow> real \<Rightarrow> bool" where
  "jge (Num a) c = (c \<le> a)"
| "jge PosInf c = True"
| "jge NegInf c = False"
| "jge NaN c = False"

section \<open>Values, enums and the objects the animator reads and writes\<close>

record vector2 =
  x2 :: jsnum
  y2 :: jsnum

record vector3 =
  x3 :: jsnum
  y3 :: jsnum
  z3 :: jsnum

record vector4 =
  x4 :: jsnum
  y4 :: jsnum
  z4 :: jsnum
  w4 :: jsnum

record quaternion =
  qx :: jsnum
  qy :: jsnum
  qz :: jsnum
  qw :: jsnum

text \<open>\<open>InterpolableValue = number | Vector2 | Vector3 | Vector4 | Quaternion\<close>.\<close>

datatype InterpolableValue =
  VFloat jsnum | VVector2 vector2 | VVector3 vector3 | VVector4 vector4
  | VQuaternion quaternion

datatype InterpolableValueType = Float | Vector2 | Vector3 | Vector4 | Quaternion

datatype AnimationProperty = Position | Rotation | Scale

datatype LayerState = Standby | Playing | CrossFading | FixedCrossFading

datatype PlayState = Playing | Fading | Crossing | Finished

datatype WrapMode = Loop | Clamp

datatype AnimatorLayerBlendingMode = Override | Additive

text \<open>The component class a curve or an owner names; only \<open>Transform\<close> is ever tested for.\<close>

datatype ComponentType = Transform | OtherComponent nat

text \<open>
  A call ends in \<open>TypeError\<close> where JavaScript throws one (a property read on
  \<open>undefined\<close> or \<open>null\<close>). \<open>IllTyped\<close> marks the places where an unchecked
  TypeScript cast (\<open>x as Vector3\<close>) meets a value of another kind than the cast names;
  the declared types exclude such a value and the model stops there.
  A call that throws is final: what a later call does with the half-updated objects
  is not modelled.
\<close>

datatype error = TypeError | IllTyped

definition bindR :: "error + 'a \<Rightarrow> ('a \<Rightarrow> error + 'b) \<Rightarrow> error + 'b" where
  "bindR r f = (case r of Inl e \<Rightarrow> Inl e | Inr v \<Rightarrow> f v)"

text \<open>Entities are named by their \<open>instanceId\<close>, animator states by an object identity.\<close>

type_synonym eid = nat
type_synonym sid = nat

record transform =
  position :: vector3
  rotationQuaternion :: quaternion
  scale :: vector3

record AnimationCurve =
  evaluate :: "jsnum \<Rightarrow> InterpolableValue"
  valueType :: InterpolableValueType
  keys :: "InterpolableValue list"

text \<open>One entry of \<open>clip._curves\<close>; \<open>ctype\<close> is the source's \<open>type\<close>.\<close>

record AnimationClipCurveData =
  relativePath :: string
  ctype :: ComponentType
  cproperty :: AnimationProperty
  curve :: AnimationCurve

record AnimationClip =
  clipLength :: real
  curves :: "AnimationClipCurveData list"

record AnimatorStateTransition =
  duration :: real
  offset :: real
  crossFadeFrameTime :: real

text \<open>
  An \<open>AnimatorState\<close> as the animator uses it: its clip (possibly unset), \<open>clipEndTime\<close>,
  \<open>wrapMode\<close>, the array \<open>transitions\<close> and the method \<open>_getTheRealFrameTime\<close>, which
  is outside the animator and is a field here.
\<close>

record AnimatorState =
  clip :: "AnimationClip option"
  clipEndTime :: real
  wrapMode :: WrapMode
  transitions :: "AnimatorStateTransition list"
  getTheRealFrameTime :: "jsnum \<Rightarrow> jsnum"

text \<open>
  Owners are cached per entity and property (\<open>_animationCureOwners[instanceId][property]\<close>),
  so that pair is the identity of an owner object.
\<close>

type_synonym ownerKey = "eid \<times> AnimationProperty"

record AnimationCureOwner =
  target :: eid
  otype :: ComponentType
  oproperty :: AnimationProperty
  defaultValue :: "InterpolableValue option"
  fixedPoseValue :: "InterpolableValue option"
  crossCurveMark :: nat
  crossCurveIndex :: "nat option"

record AnimatorStateData =
  owners :: "ownerKey list"

record AnimatorStatePlayData =
  state :: "sid option"
  frameTime :: jsnum
  playState :: "PlayState option"
  stateData :: "AnimatorStateData option"

text \<open>
  A layer allocates two playback records and holds two references into them. The
  references can come to name the same record, since a finished cross-fade assigns
  \<open>srcPlayData = destPlayData\<close>.
\<close>

datatype PlayDataRef = RecordA | RecordB

record AnimatorLayerData =
  animatorStateDataMap :: "string \<rightharpoonup> AnimatorStateData"
  playData :: "PlayDataRef \<Rightarrow> AnimatorStatePlayData"
  srcPlayData :: PlayDataRef
  destPlayData :: PlayDataRef
  layerState :: LayerState
  layerCrossCurveMark :: nat

record CrossCurveData =
  owner :: ownerKey
  curCurveIndex :: "nat option"
  nextCurveIndex :: "nat option"

record AnimatorControllerLayer =
  weight :: real
  blendingMode :: AnimatorLayerBlendingMode
  stateMachine :: "(string \<times> sid) list"

text \<open>
  \<open>_diffValueFromBasePose\<close> is a reference to one of the five scratch objects (or
  \<open>undefined\<close> before the first diff); it is modelled as the name of the scratch slot.
\<close>

datatype DiffSlot = FloatSlot | Vector2Slot | Vector3Slot | Vector4Slot | QuaternionSlot

text \<open>
  The animator. \<open>states\<close> holds the state objects of the controller, \<open>transforms\<close> the
  transforms of the entities and \<open>findByPath\<close> the lookup of an entity below the animator's
  own entity. The pool behind \<open>_crossCurveData\<close> only recycles records and is not modelled;
  the scratch objects \<open>_tempVector3\<close> and \<open>_tempQuaternion\<close> are returned by value.
\<close>

record Animator =
  speed :: real
  animatorController :: "AnimatorControllerLayer list option"
  states :: "sid \<Rightarrow> AnimatorState"
  diffValueFromBasePose :: "DiffSlot option"
  diffFloatFromBasePose :: jsnum
  diffVector2FromBasePose :: vector2
  diffVector3FromBasePose :: vector3
  diffVector4FromBasePose :: vector4
  diffQuaternionFromBasePose :: quaternion
  animatorLayersData :: "nat \<rightharpoonup> AnimatorLayerData"
  crossCurveData :: "CrossCurveData list"
  transitionForPose :: AnimatorStateTransition
  animationCureOwners :: "ownerKey \<rightharpoonup> AnimationCureOwner"
  transforms :: "eid \<Rightarrow> transform"
  findByPath :: "string \<Rightarrow> eid option"

text \<open>
  The classes the animator builds on are outside it, and what it takes from them is a
  parameter: the functions of the math library and of \<open>AnimatorUtils\<close>
  (\<open>multiply a b\<close> stands for both \<open>Quaternion.multiply(a, b, out)\<close> and
  \<open>a.multiply(b)\<close>), what the constructors of \<open>AnimatorLayerData\<close>,
  \<open>AnimationCureOwner\<close> and \<open>AnimatorStateTransition\<close> return, and the two methods
  of an owner that snapshot the target's transform.
\<close>

record Externals =
  lerp :: "vector3 \<Rightarrow> vector3 \<Rightarrow> jsnum \<Rightarrow> vector3"
  slerp :: "quaternion \<Rightarrow> quaternion \<Rightarrow> jsnum \<Rightarrow> quaternion"
  conjugate :: "quaternion \<Rightarrow> quaternion"
  multiply :: "quaternion \<Rightarrow> quaternion \<Rightarrow> quaternion"
  normalize :: "quaternion \<Rightarrow> quaternion"
  calQuaternionWeight :: "quaternion \<Rightarrow> real \<Rightarrow> quaternion"
  calScaleWeight :: "vector3 \<Rightarrow> real \<Rightarrow> vector3"
  newLayerData :: AnimatorLayerData
  newOwner :: "eid \<Rightarrow> ComponentType \<Rightarrow> AnimationProperty \<Rightarrow> AnimationCureOwner"
  newTransition :: AnimatorStateTransition
  saveDefaultValue :: "transform \<Rightarrow> AnimationCureOwner \<Rightarrow> AnimationCureOwner"
  saveFixedPoseValue :: "transform \<Rightarrow> AnimationCureOwner \<Rightarrow> AnimationCureOwner"

section \<open>Diff from the base pose\<close>

definition calculateFloatDiff :: "AnimationProperty \<Rightarrow> jsnum \<Rightarrow> jsnum \<Rightarrow> Animator \<Rightarrow> Animator" where
  "calculateFloatDiff property sVal dVal a =
     a\<lparr>diffFloatFromBasePose :=
          (if property = Scale then jdiv dVal sVal else jsub dVal sVal),
        diffValueFromBasePose := Some FloatSlot\<rparr>"

definition calculateVector2Diff :: "AnimationProperty \<Rightarrow> vector2 \<Rightarrow> vector2 \<Rightarrow> Animator \<Rightarrow> Animator" where
  "calculateVector2Diff property sVal dVal a =
     a\<lparr>diffVector2FromBasePose :=
          (if property = Scale
           then \<lparr>x2 = jdiv (x2 dVal) (x2 sVal), y2 = jdiv (y2 dVal) (y2 sVal)\<rparr>
           else \<lparr>x2 = jsub (x2 dVal) (x2 sVal), y2 = jsub (y2 dVal) (y2 sVal)\<rparr>),
        diffValueFromBasePose := Some Vector2Slot\<rparr>"

definition calculateVector3Diff :: "AnimationProperty \<Rightarrow> vector3 \<Rightarrow> vector3 \<Rightarrow> Animator \<Rightarrow> Animator" where
  "calculateVector3Diff property sVal dVal a =
     a\<lparr>diffVector3FromBasePose :=
          (if property = Scale
           then \<lparr>x3 = jdiv (x3 dVal) (x3 sVal), y3 = jdiv (y3 dVal) (y3 sVal),
                 z3 = jdiv (z3 dVal) (z3 sVal)\<rparr>
           else \<lparr>x3 = jsub (x3 dVal) (x3 sVal), y3 = jsub (y3 dVal) (y3 sVal),
                 z3 = jsub (z3 dVal) (z3 sVal)\<rparr>),
        diffValueFromBasePose := Some Vector3Slot\<rparr>"

definition calculateVector4Diff :: "AnimationProperty \<Rightarrow> vector4 \<Rightarrow> vector4 \<Rightarrow> Animator \<Rightarrow> Animator" where
  "calculateVector4Diff property sVal dVal a =
     a\<lparr>diffVector4FromBasePose :=
          (if property = Scale
           then \<lparr>x4 = jdiv (x4 dVal) (x4 sVal), y4 = jdiv (y4 dVal) (y4 sVal),
                 z4 = jdiv (z4 dVal) (z4 sVal), w4 = jdiv (w4 dVal) (w4 sVal)\<rparr>
           else \<lparr>x4 = jsub (x4 dVal) (x4 sVal), y4 = jsub (y4 dVal) (y4 sVal),
                 z4 = jsub (z4 dVal) (z4 sVal), w4 = jsub (w4 dVal) (w4 sVal)\<rparr>),
        diffValueFromBasePose := Some Vector4Slot\<rparr>"

definition calculateQuaternionDiff :: "Externals \<Rightarrow> quaternion \<Rightarrow> quaternion \<Rightarrow> Animator \<Rightarrow> Animator" where
  "calculateQuaternionDiff X dVal sVal a =
     a\<lparr>diffQuaternionFromBasePose := multiply X (conjugate X sVal) dVal,
        diffValueFromBasePose := Some QuaternionSlot\<rparr>"

text \<open>
  The \<open>switch\<close> of \<open>_calculateDiff\<close>, label by label in the source's order: the fourth
  label repeats \<open>InterpolableValueType.Vector3\<close>. The casts \<open>sVal as Vector3\<close> are
  unchecked; a value of another kind than the tag names ends the model in \<open>IllTyped\<close>.
\<close>

definition calculateDiff ::
  "Externals \<Rightarrow> InterpolableValueType \<Rightarrow> AnimationProperty \<Rightarrow> InterpolableValue
     \<Rightarrow> InterpolableValue \<Rightarrow> Animator \<Rightarrow> error + Animator" where
  "calculateDiff X vt property sVal dVal a =
     (if vt = Float then
        (case (sVal, dVal) of
           (VFloat s, VFloat d) \<Rightarrow> Inr (calculateFloatDiff property s d a)
         | _ \<Rightarrow> Inl IllTyped)
      else if vt = Vector2 then
        (case (sVal, dVal) of
           (VVector2 s, VVector2 d) \<Rightarrow> Inr (calculateVector2Diff property s d a)
         | _ \<Rightarrow> Inl IllTyped)
      else if vt = Vector3 then
        (case (sVal, dVal) of
           (VVector3 s, VVector3 d) \<Rightarrow> Inr (calculateVector3Diff property s d a)
         | _ \<Rightarrow> Inl IllTyped)
      else if vt = Vector3 then
        (case (sVal, dVal) of
           (VVector4 s, VVector4 d) \<Rightarrow> Inr (calculateVector4Diff property s d a)
         | _ \<Rightarrow> Inl IllTyped)
      else if vt = Quaternion then
        (case (sVal, dVal) of
           (VQuaternion s, VQuaternion d) \<Rightarrow> Inr (calculateQuaternionDiff X d s a)
         | _ \<Rightarrow> Inl IllTyped)
      else Inr a)"

section \<open>Writing values onto a transform\<close>

definition asVector3 :: "InterpolableValue option \<Rightarrow> error + vector3" where
  "asVector3 v = (case v of None \<Rightarrow> Inl TypeError
                   | Some (VVector3 u) \<Rightarrow> Inr u
                   | Some _ \<Rightarrow> Inl IllTyped)"

definition asQuaternion :: "InterpolableValue option \<Rightarrow> error + quaternion" where
  "asQuaternion v = (case v of None \<Rightarrow> Inl TypeError
                      | Some (VQuaternion q) \<Rightarrow> Inr q
                      | Some _ \<Rightarrow> Inl IllTyped)"

definition setTransform :: "eid \<Rightarrow> (transform \<Rightarrow> transform) \<Rightarrow> Animator \<Rightarrow> Animator" where
  "setTransform e f a = a\<lparr>transforms := (transforms a)(e := f (transforms a e))\<rparr>"

text \<open>
  \<open>_getCrossFadeValue\<close> returns \<open>undefined\<close> (here \<open>None\<close>) for a component other than
  \<open>Transform\<close>. Its \<open>Scale\<close> branch reads \<open>transform.scale\<close> and assigns the same object
  back, which changes no value.
\<close>

definition getCrossFadeValue ::
  "Externals \<Rightarrow> ComponentType \<Rightarrow> AnimationProperty \<Rightarrow> InterpolableValue option
     \<Rightarrow> InterpolableValue option \<Rightarrow> jsnum \<Rightarrow> error + InterpolableValue option" where
  "getCrossFadeValue X ty property sVal dVal crossWeight =
     (if ty = Transform then
        (case property of
           Position \<Rightarrow>
             bindR (asVector3 sVal) (\<lambda>s. bindR (asVector3 dVal) (\<lambda>d.
               Inr (Some (VVector3 (lerp X s d crossWeight)))))
         | Rotation \<Rightarrow>
             bindR (asQuaternion sVal) (\<lambda>s. bindR (asQuaternion dVal) (\<lambda>d.
               Inr (Some (VQuaternion (slerp X s d crossWeight)))))
         | Scale \<Rightarrow>
             bindR (asVector3 sVal) (\<lambda>s. bindR (asVector3 dVal) (\<lambda>d.
               Inr (Some (VVector3 (lerp X s d crossWeight))))))
      else Inr None)"

definition applyClipValue ::
  "Externals \<Rightarrow> eid \<Rightarrow> ComponentType \<Rightarrow> AnimationProperty \<Rightarrow> InterpolableValue option
     \<Rightarrow> InterpolableValue option \<Rightarrow> real \<Rightarrow> Animator \<Rightarrow> error + Animator" where
  "applyClipValue X tgt ty property srcValue dstValue w a =
     (if ty = Transform then
        (case property of
           Position \<Rightarrow>
             (if w = 1 then
                bindR (asVector3 dstValue) (\<lambda>d.
                  Inr (setTransform tgt (\<lambda>t. t\<lparr>position := d\<rparr>) a))
              else
                bindR (asVector3 srcValue) (\<lambda>s. bindR (asVector3 dstValue) (\<lambda>d.
                  Inr (setTransform tgt (\<lambda>t. t\<lparr>position := lerp X s d (Num w)\<rparr>) a))))
         | Rotation \<Rightarrow>
             (if w = 1 then
                bindR (asQuaternion dstValue) (\<lambda>d.
                  Inr (setTransform tgt (\<lambda>t. t\<lparr>rotationQuaternion := d\<rparr>) a))
              else
                bindR (asQuaternion srcValue) (\<lambda>s. bindR (asQuaternion dstValue) (\<lambda>d.
                  Inr (setTransform tgt
                         (\<lambda>t. t\<lparr>rotationQuaternion := slerp X s d (Num w)\<rparr>) a))))
         | Scale \<Rightarrow>
             (if w = 1 then
                bindR (asVector3 dstValue) (\<lambda>d.
                  Inr (setTransform tgt (\<lambda>t. t\<lparr>scale := d\<rparr>) a))
              else
                bindR (asVector3 srcValue) (\<lambda>s. bindR (asVector3 dstValue) (\<lambda>d.
                  Inr (setTransform tgt (\<lambda>t. t\<lparr>scale := lerp X s d (Num w)\<rparr>) a)))))
      else Inr a)"

text \<open>
  \<open>_updateAdditiveLayerValue\<close> receives the reference \<open>_diffValueFromBasePose\<close>. The
  \<open>Rotation\<close> branch weights and normalizes the referenced quaternion in place.
\<close>

definition slotAsVector3 :: "DiffSlot option \<Rightarrow> Animator \<Rightarrow> error + vector3" where
  "slotAsVector3 r a = (case r of None \<Rightarrow> Inl TypeError
                         | Some Vector3Slot \<Rightarrow> Inr (diffVector3FromBasePose a)
                         | Some _ \<Rightarrow> Inl IllTyped)"

definition slotAsQuaternion :: "DiffSlot option \<Rightarrow> Animator \<Rightarrow> error + quaternion" where
  "slotAsQuaternion r a = (case r of None \<Rightarrow> Inl TypeError
                            | Some QuaternionSlot \<Rightarrow> Inr (diffQuaternionFromBasePose a)
                            | Some _ \<Rightarrow> Inl IllTyped)"

definition updateAdditiveLayerValue ::
  "Externals \<Rightarrow> eid \<Rightarrow> ComponentType \<Rightarrow> AnimationProperty \<Rightarrow> DiffSlot option \<Rightarrow> real
     \<Rightarrow> Animator \<Rightarrow> error + Animator" where
  "updateAdditiveLayerValue X tgt ty property diffVal w a =
     (if ty = Transform then
        (case property of
           Position \<Rightarrow>
             bindR (slotAsVector3 diffVal a) (\<lambda>d.
               Inr (setTransform tgt
                      (\<lambda>t. t\<lparr>position :=
                              \<lparr>x3 = jadd (x3 (position t)) (x3 d),
                               y3 = jadd (y3 (position t)) (y3 d),
                               z3 = jadd (z3 (position t)) (z3 d)\<rparr>\<rparr>) a))
         | Rotation \<Rightarrow>
             bindR (slotAsQuaternion diffVal a) (\<lambda>d.
               let q = normalize X (calQuaternionWeight X d w) in
               Inr (setTransform tgt
                      (\<lambda>t. t\<lparr>rotationQuaternion := multiply X (rotationQuaternion t) q\<rparr>)
                      (a\<lparr>diffQuaternionFromBasePose := q\<rparr>)))
         | Scale \<Rightarrow>
             bindR (slotAsVector3 diffVal a) (\<lambda>d.
               Inr (setTransform tgt
                      (\<lambda>t. let s = calScaleWeight X (scale t) w in
                           t\<lparr>scale := \<lparr>x3 = jmul (x3 s) (x3 d),
                                        y3 = jmul (y3 s) (y3 d),
                                        z3 = jmul (z3 s) (z3 d)\<rparr>\<rparr>) a)))
      else Inr a)"

section \<open>Loops and array reads\<close>

text \<open>An array read \<open>xs[i]\<close> is \<open>undefined\<close> (here \<open>None\<close>) out of range.\<close>

definition nth_opt :: "'x list \<Rightarrow> nat \<Rightarrow> 'x option" where
  "nth_opt xs i = (if i < length xs then Some (xs ! i) else None)"

fun runAll :: "'x list \<Rightarrow> ('x \<Rightarrow> 's \<Rightarrow> error + 's) \<Rightarrow> 's \<Rightarrow> error + 's" where
  "runAll [] f s = Inr s"
| "runAll (x # xs) f s = bindR (f x s) (runAll xs f)"

text \<open>\<open>for (let i = xs.length - 1; i >= 0; i--)\<close> with the body reading \<open>xs[i]\<close>.\<close>

definition forDown :: "'x list \<Rightarrow> (nat \<Rightarrow> 'x \<Rightarrow> 's \<Rightarrow> error + 's) \<Rightarrow> 's \<Rightarrow> error + 's" where
  "forDown xs f s = runAll (rev (enumerate 0 xs)) (\<lambda>(i, x). f i x) s"

section \<open>Resolving a state by name\<close>

text \<open>
  Modelled from the spec: \<open>findStateByName\<close> of a layer's state machine is absent; the
  spec gives it as \<open>findStateByName(name) -> State | null\<close> per layer. A state machine
  is the list of its named states and the lookup returns the first of that name.
\<close>

definition findStateByName :: "(string \<times> sid) list \<Rightarrow> string \<Rightarrow> sid option" where
  "findStateByName sm stateName = map_of sm stateName"

text \<open>
  The search of \<open>_getAnimatorStateInfo\<close> over all layers,
  \<open>for (let i = 0, n = layers.length; i < n; i--)\<close>: the counter is decremented, and
  \<open>layers[i]\<close> at a negative index is \<open>undefined\<close>, whose \<open>stateMachine\<close> cannot be read.
\<close>

function searchLayers ::
  "AnimatorControllerLayer list \<Rightarrow> string \<Rightarrow> int \<Rightarrow> error + (int \<times> sid option)" where
  "searchLayers layers stateName i =
     (if i < int (length layers) then
        (if i < 0 then Inl TypeError
         else (case findStateByName (stateMachine (layers ! nat i)) stateName of
                 Some s \<Rightarrow> Inr (i, Some s)
               | None \<Rightarrow> searchLayers layers stateName (i - 1)))
      else Inr (- 1, None))"
  by pat_completeness auto
termination
  by (relation "measure (\<lambda>(layers, stateName, i). nat (i + 1))") auto

definition getAnimatorStateInfo :: "string \<Rightarrow> int \<Rightarrow> Animator \<Rightarrow> error + (int \<times> sid option)" where
  "getAnimatorStateInfo stateName layerIndex a =
     (case animatorController a of
        None \<Rightarrow> Inr (layerIndex, None)
      | Some layers \<Rightarrow>
          if layerIndex = - 1 then searchLayers layers stateName 0
          else if 0 \<le> layerIndex \<and> layerIndex < int (length layers)
          then Inr (layerIndex,
                    findStateByName (stateMachine (layers ! nat layerIndex)) stateName)
          else Inl TypeError)"

section \<open>Layer data, owners and state data\<close>

definition layerAt :: "Externals \<Rightarrow> Animator \<Rightarrow> nat \<Rightarrow> AnimatorLayerData" where
  "layerAt X a i = (case animatorLayersData a i of Some d \<Rightarrow> d | None \<Rightarrow> newLayerData X)"

text \<open>\<open>_getAnimatorLayerData\<close> creates the layer's data on first use.\<close>

definition getAnimatorLayerData :: "Externals \<Rightarrow> nat \<Rightarrow> Animator \<Rightarrow> Animator" where
  "getAnimatorLayerData X i a =
     a\<lparr>animatorLayersData := (animatorLayersData a)(i \<mapsto> layerAt X a i)\<rparr>"

definition updLayer :: "nat \<Rightarrow> (AnimatorLayerData \<Rightarrow> AnimatorLayerData) \<Rightarrow> Animator \<Rightarrow> Animator" where
  "updLayer i f a =
     a\<lparr>animatorLayersData := (animatorLayersData a)(i := map_option f (animatorLayersData a i))\<rparr>"

definition updPlayData ::
  "PlayDataRef \<Rightarrow> (AnimatorStatePlayData \<Rightarrow> AnimatorStatePlayData)
     \<Rightarrow> AnimatorLayerData \<Rightarrow> AnimatorLayerData" where
  "updPlayData r f d = d\<lparr>playData := (playData d)(r := f (playData d r))\<rparr>"

text \<open>An owner key with no object behind it reads as \<open>undefined\<close>.\<close>

definition withOwner :: "ownerKey \<Rightarrow> Animator \<Rightarrow> (AnimationCureOwner \<Rightarrow> error + 'r) \<Rightarrow> error + 'r" where
  "withOwner k a f = (case animationCureOwners a k of None \<Rightarrow> Inl TypeError | Some ow \<Rightarrow> f ow)"

definition setOwner :: "ownerKey \<Rightarrow> AnimationCureOwner \<Rightarrow> Animator \<Rightarrow> Animator" where
  "setOwner k ow a = a\<lparr>animationCureOwners := (animationCureOwners a)(k \<mapsto> ow)\<rparr>"

definition saveDefaultValues :: "Externals \<Rightarrow> AnimatorStateData \<Rightarrow> Animator \<Rightarrow> error + Animator" where
  "saveDefaultValues X sd a =
     forDown (owners sd)
       (\<lambda>i k a. withOwner k a (\<lambda>ow.
          Inr (setOwner k (saveDefaultValue X (transforms a (target ow)) ow) a))) a"

text \<open>
  One step of \<open>_saveAnimatorStateData\<close>: the entity of the curve's path (\<open>null\<close> when
  the path resolves to nothing, and then \<open>instanceId\<close> cannot be read), and the cached
  owner of that entity and property, created when absent.
\<close>

definition bindOwner ::
  "Externals \<Rightarrow> AnimationClipCurveData \<Rightarrow> Animator \<Rightarrow> error + (ownerKey \<times> Animator)" where
  "bindOwner X c a =
     (case findByPath a (relativePath c) of
        None \<Rightarrow> Inl TypeError
      | Some e \<Rightarrow>
          (case animationCureOwners a (e, cproperty c) of
             Some ow \<Rightarrow> Inr ((e, cproperty c), a)
           | None \<Rightarrow> Inr ((e, cproperty c),
                          setOwner (e, cproperty c) (newOwner X e (ctype c) (cproperty c)) a)))"

fun bindOwners ::
  "Externals \<Rightarrow> AnimationClipCurveData list \<Rightarrow> ownerKey list \<Rightarrow> Animator
     \<Rightarrow> error + (ownerKey list \<times> Animator)" where
  "bindOwners X [] acc a = Inr (acc, a)"
| "bindOwners X (c # cs) acc a =
     bindR (bindOwner X c a) (\<lambda>(k, a'). bindOwners X cs (k # acc) a')"

text \<open>The curves are visited from the last to the first; \<open>owners[i]\<close> belongs to curve \<open>i\<close>.\<close>

definition saveAnimatorStateData ::
  "Externals \<Rightarrow> sid \<Rightarrow> Animator \<Rightarrow> error + (ownerKey list \<times> Animator)" where
  "saveAnimatorStateData X s a =
     (case clip (states a s) of
        None \<Rightarrow> Inl TypeError
      | Some cl \<Rightarrow> bindOwners X (rev (curves cl)) [] a)"

definition getAnimatorStateData ::
  "Externals \<Rightarrow> string \<Rightarrow> sid \<Rightarrow> nat \<Rightarrow> Animator \<Rightarrow> error + (AnimatorStateData \<times> Animator)" where
  "getAnimatorStateData X stateName s i a =
     (case animatorStateDataMap (layerAt X a i) stateName of
        Some sd \<Rightarrow> Inr (sd, a)
      | None \<Rightarrow>
          bindR (saveAnimatorStateData X s a) (\<lambda>(ks, a').
            Inr (\<lparr>owners = ks\<rparr>,
                 updLayer i (\<lambda>d. d\<lparr>animatorStateDataMap :=
                                      (animatorStateDataMap d)(stateName \<mapsto> \<lparr>owners = ks\<rparr>)\<rparr>)
                   a')))"

definition revertDefaultValue :: "AnimatorStatePlayData \<Rightarrow> Animator \<Rightarrow> error + Animator" where
  "revertDefaultValue pd a =
     (case state pd of
        None \<Rightarrow> Inl TypeError
      | Some s \<Rightarrow>
          (case clip (states a s) of
             None \<Rightarrow> Inr a
           | Some cl \<Rightarrow>
               (case stateData pd of
                  None \<Rightarrow> Inl TypeError
                | Some sd \<Rightarrow>
                    forDown (curves cl)
                      (\<lambda>i c a.
                         (case nth_opt (owners sd) i of
                            None \<Rightarrow> Inl TypeError
                          | Some k \<Rightarrow> withOwner k a (\<lambda>ow.
                              (case cproperty c of
                                 Position \<Rightarrow>
                                   bindR (asVector3 (defaultValue ow)) (\<lambda>v.
                                     Inr (setTransform (target ow) (\<lambda>t. t\<lparr>position := v\<rparr>) a))
                               | Rotation \<Rightarrow>
                                   bindR (asQuaternion (defaultValue ow)) (\<lambda>v.
                                     Inr (setTransform (target ow)
                                            (\<lambda>t. t\<lparr>rotationQuaternion := v\<rparr>) a))
                               | Scale \<Rightarrow>
                                   bindR (asVector3 (defaultValue ow)) (\<lambda>v.
                                     Inr (setTransform (target ow) (\<lambda>t. t\<lparr>scale := v\<rparr>) a))))))
                      a)))"

section \<open>play\<close>

definition play ::
  "Externals \<Rightarrow> string \<Rightarrow> int \<Rightarrow> real \<Rightarrow> Animator \<Rightarrow> error + Animator" where
  "play X stateName layerIndex normalizedTimeOffset a =
     bindR (getAnimatorStateInfo stateName layerIndex a) (\<lambda>(validLayerIndex, found).
       (case found of
          None \<Rightarrow> Inr a
        | Some playSt \<Rightarrow>
            (let i = nat validLayerIndex;
                 a1 = getAnimatorLayerData X i a;
                 src = srcPlayData (layerAt X a1 i);
                 srcRecord = playData (layerAt X a1 i) src
             in bindR (if state srcRecord \<noteq> None \<and> state srcRecord \<noteq> Some playSt
                       then revertDefaultValue srcRecord a1 else Inr a1) (\<lambda>a2.
                bindR (getAnimatorStateData X stateName playSt i a2) (\<lambda>(sd, a3).
                  (case clip (states a3 playSt) of
                     None \<Rightarrow> Inl TypeError
                   | Some cl \<Rightarrow>
                       saveDefaultValues X sd
                         (updLayer i
                            (\<lambda>d. (updPlayData src
                                     (\<lambda>p. p\<lparr>state := Some playSt,
                                             frameTime := Num (clipLength cl * normalizedTimeOffset),
                                             playState := Some PlayState.Playing,
                                             stateData := Some sd\<rparr>) d)
                                  \<lparr>layerState := LayerState.Playing\<rparr>)
                            a3)))))))"

section \<open>crossFade\<close>

definition clearCrossData :: "nat \<Rightarrow> Animator \<Rightarrow> Animator" where
  "clearCrossData i a =
     (updLayer i (\<lambda>d. d\<lparr>layerCrossCurveMark := Suc (layerCrossCurveMark d)\<rparr>) a)
       \<lparr>crossCurveData := []\<rparr>"

definition addCrossCurveData :: "ownerKey \<Rightarrow> nat option \<Rightarrow> nat option \<Rightarrow> Animator \<Rightarrow> Animator" where
  "addCrossCurveData k cur nxt a =
     a\<lparr>crossCurveData :=
         crossCurveData a @ [\<lparr>owner = k, curCurveIndex = cur, nextCurveIndex = nxt\<rparr>]\<rparr>"

definition prepareSrcCrossData ::
  "Externals \<Rightarrow> AnimatorStatePlayData \<Rightarrow> nat \<Rightarrow> bool \<Rightarrow> Animator \<Rightarrow> error + Animator" where
  "prepareSrcCrossData X pd mark saveFixed a =
     (case stateData pd of
        None \<Rightarrow> Inl TypeError
      | Some sd \<Rightarrow>
          forDown (owners sd)
            (\<lambda>i k a. withOwner k a (\<lambda>ow.
               let ow1 = ow\<lparr>crossCurveMark := mark,
                             crossCurveIndex := Some (length (crossCurveData a))\<rparr>;
                   ow2 = (if saveFixed
                          then saveFixedPoseValue X (transforms a (target ow1)) ow1 else ow1)
               in Inr (addCrossCurveData k (Some i) None (setOwner k ow2 a))))
            a)"

text \<open>
  An owner that already carries the mark gets \<open>nextCurveIndex\<close> written into the record
  at its \<open>crossCurveIndex\<close>; that record is \<open>undefined\<close> when the index is unset or out
  of range.
\<close>

definition prepareDestCrossData ::
  "Externals \<Rightarrow> AnimatorStatePlayData \<Rightarrow> nat \<Rightarrow> bool \<Rightarrow> Animator \<Rightarrow> error + Animator" where
  "prepareDestCrossData X pd mark saveFixed a =
     (case stateData pd of
        None \<Rightarrow> Inl TypeError
      | Some sd \<Rightarrow>
          forDown (owners sd)
            (\<lambda>i k a. withOwner k a (\<lambda>ow.
               if crossCurveMark ow = mark then
                 (case crossCurveIndex ow of
                    None \<Rightarrow> Inl TypeError
                  | Some j \<Rightarrow>
                      (case nth_opt (crossCurveData a) j of
                         None \<Rightarrow> Inl TypeError
                       | Some item \<Rightarrow>
                           Inr (a\<lparr>crossCurveData :=
                                    (crossCurveData a)[j := item\<lparr>nextCurveIndex := Some i\<rparr>]\<rparr>)))
               else
                 (let ow1 = (if saveFixed
                             then saveFixedPoseValue X (transforms a (target ow)) ow else ow)
                  in Inr (addCrossCurveData k None (Some i)
                            (setOwner k (ow1\<lparr>crossCurveMark := mark\<rparr>) a)))))
            a)"

definition prepareCrossFading :: "Externals \<Rightarrow> nat \<Rightarrow> Animator \<Rightarrow> error + Animator" where
  "prepareCrossFading X i a =
     (let d = layerAt X a i; mark = layerCrossCurveMark d
      in bindR (prepareSrcCrossData X (playData d (srcPlayData d)) mark False a) (\<lambda>a1.
           prepareDestCrossData X
             (playData (layerAt X a1 i) (destPlayData (layerAt X a1 i))) mark False a1))"

text \<open>The guard \<open>srcPlayData &&\<close> holds: the reference always names a record.\<close>

definition prepareStandbyCrossFading :: "Externals \<Rightarrow> nat \<Rightarrow> Animator \<Rightarrow> error + Animator" where
  "prepareStandbyCrossFading X i a =
     (let d = layerAt X a i; mark = layerCrossCurveMark d
      in bindR (prepareSrcCrossData X (playData d (srcPlayData d)) mark True a) (\<lambda>a1.
           prepareDestCrossData X
             (playData (layerAt X a1 i) (destPlayData (layerAt X a1 i))) mark True a1))"

definition prepareFiexdPoseCrossFading :: "Externals \<Rightarrow> nat \<Rightarrow> Animator \<Rightarrow> error + Animator" where
  "prepareFiexdPoseCrossFading X i a =
     bindR (forDown (crossCurveData a)
              (\<lambda>j item a. withOwner (owner item) a (\<lambda>ow.
                 Inr (setOwner (owner item)
                        (saveFixedPoseValue X (transforms a (target ow)) ow) a)))
              a) (\<lambda>a1.
       prepareDestCrossData X
         (playData (layerAt X a1 i) (destPlayData (layerAt X a1 i)))
         (layerCrossCurveMark (layerAt X a1 i)) True a1)"

text \<open>
  The local \<open>transition\<close> of \<open>crossFade\<close> is a reference: to \<open>_transitionForPose\<close> or to
  an element of some state's \<open>transitions\<close>.
\<close>

datatype TransitionRef = ForPose | OfState sid nat

definition updTransition ::
  "TransitionRef \<Rightarrow> (AnimatorStateTransition \<Rightarrow> AnimatorStateTransition) \<Rightarrow> Animator \<Rightarrow> Animator" where
  "updTransition r f a =
     (case r of
        ForPose \<Rightarrow> a\<lparr>transitionForPose := f (transitionForPose a)\<rparr>
      | OfState s j \<Rightarrow>
          (case nth_opt (transitions (states a s)) j of
             None \<Rightarrow> a
           | Some t \<Rightarrow>
               a\<lparr>states := (states a)
                    (s := (states a s)\<lparr>transitions := (transitions (states a s))[j := f t]\<rparr>)\<rparr>))"

definition getTransition :: "TransitionRef \<Rightarrow> Animator \<Rightarrow> AnimatorStateTransition option" where
  "getTransition r a =
     (case r of
        ForPose \<Rightarrow> Some (transitionForPose a)
      | OfState s j \<Rightarrow> nth_opt (transitions (states a s)) j)"

text \<open>
  Modelled from the spec: \<open>AnimatorState.addTransition\<close> is absent; the spec has the
  \<open>Playing\<close> branch "allocate a transition descriptor from the current state (not pose)
  to the destination". A new transition is appended to the state's \<open>transitions\<close> and
  returned.
\<close>

definition addTransition :: "Externals \<Rightarrow> sid \<Rightarrow> Animator \<Rightarrow> TransitionRef \<times> Animator" where
  "addTransition X s a =
     (OfState s (length (transitions (states a s))),
      a\<lparr>states := (states a)
           (s := (states a s)\<lparr>transitions := transitions (states a s) @ [newTransition X]\<rparr>)\<rparr>)"

text \<open>
  The \<open>switch\<close> of \<open>crossFade\<close> on the layer state read at entry. It yields the value of
  the local \<open>transition\<close>, which the \<open>FixedCrossFading\<close> case leaves unassigned (\<open>None\<close>).
  \<open>srcState\<close> is \<open>srcPlayData.state\<close> as read at entry.
\<close>

definition crossFadeSwitch ::
  "Externals \<Rightarrow> LayerState \<Rightarrow> nat \<Rightarrow> PlayDataRef \<Rightarrow> sid option \<Rightarrow> Animator
     \<Rightarrow> error + (TransitionRef option \<times> Animator)" where
  "crossFadeSwitch X ls i src srcState a =
     (case ls of
        Standby \<Rightarrow>
          bindR (prepareStandbyCrossFading X i
                   (clearCrossData i
                      (updLayer i (\<lambda>d. d\<lparr>layerState := FixedCrossFading\<rparr>) a))) (\<lambda>a1.
            Inr (Some ForPose, a1))
      | LayerState.Playing \<Rightarrow>
          bindR (prepareCrossFading X i
                   (clearCrossData i
                      (updLayer i (\<lambda>d. d\<lparr>layerState := CrossFading\<rparr>) a))) (\<lambda>a1.
            (case srcState of
               None \<Rightarrow> Inl TypeError
             | Some s \<Rightarrow>
                 (let (r, a2) = addTransition X s
                        (updLayer i (updPlayData src (\<lambda>p. p\<lparr>playState := Some Fading\<rparr>)) a1)
                  in Inr (Some r, a2))))
      | CrossFading \<Rightarrow>
          bindR (prepareFiexdPoseCrossFading X i
                   (updLayer i (\<lambda>d. d\<lparr>layerState := FixedCrossFading\<rparr>) a)) (\<lambda>a1.
            Inr (Some ForPose, a1))
      | FixedCrossFading \<Rightarrow>
          bindR (prepareFiexdPoseCrossFading X i a) (\<lambda>a1. Inr (None, a1)))"

text \<open>
  The duration and offset that \<open>crossFade\<close> writes into the transition; assigning to the
  unassigned \<open>transition\<close> throws.
\<close>

definition crossFade ::
  "Externals \<Rightarrow> string \<Rightarrow> real \<Rightarrow> int \<Rightarrow> real \<Rightarrow> Animator \<Rightarrow> error + Animator" where
  "crossFade X stateName normalizedTransitionDuration layerIndex normalizedTimeOffset a =
     bindR (getAnimatorStateInfo stateName layerIndex a) (\<lambda>(validLayerIndex, found).
       (case found of
          None \<Rightarrow> Inr a
        | Some crossSt \<Rightarrow>
            (let i = nat validLayerIndex;
                 a1 = getAnimatorLayerData X i a;
                 ls = layerState (layerAt X a1 i);
                 src = srcPlayData (layerAt X a1 i);
                 dst = destPlayData (layerAt X a1 i);
                 srcState = state (playData (layerAt X a1 i) src)
             in bindR (getAnimatorStateData X stateName crossSt i a1) (\<lambda>(sd, a2).
                bindR (saveDefaultValues X sd
                         (updLayer i
                            (updPlayData dst
                               (\<lambda>p. p\<lparr>state := Some crossSt, frameTime := Num 0,
                                       playState := Some Crossing, stateData := Some sd\<rparr>))
                            a2)) (\<lambda>a3.
                bindR (crossFadeSwitch X ls i src srcState a3) (\<lambda>(transition, a4).
                  (case clip (states a4 crossSt) of
                     None \<Rightarrow> Inl TypeError
                   | Some cl \<Rightarrow>
                       (case transition of
                          None \<Rightarrow> Inl TypeError
                        | Some r \<Rightarrow>
                            (let d = clipLength cl * normalizedTransitionDuration;
                                 off = clipLength cl * normalizedTimeOffset
                             in Inr (updTransition r
                                       (\<lambda>t. t\<lparr>duration :=
                                                 (if d > clipEndTime (states a4 crossSt) - off
                                                  then clipEndTime (states a4 crossSt) - off
                                                  else d),
                                               offset := off\<rparr>)
                                       a4))))))))))"

section \<open>update\<close>

text \<open>
  The frame time and the weight of a cross-fade, from the transition after its
  \<open>_crossFadeFrameTime\<close> has been advanced, and the destination state.
\<close>

definition crossFrameTime :: "AnimatorStateTransition \<Rightarrow> AnimatorState \<Rightarrow> jsnum" where
  "crossFrameTime t dstState =
     (if offset t + crossFadeFrameTime t > clipEndTime dstState then
        (if wrapMode dstState = Loop
         then jrem (Num (offset t + crossFadeFrameTime t)) (clipEndTime dstState)
         else Num (clipEndTime dstState))
      else Num (offset t + crossFadeFrameTime t))"

definition crossWeightOf :: "AnimatorStateTransition \<Rightarrow> jsnum" where
  "crossWeightOf t =
     (let w = jdiv (Num (crossFadeFrameTime t)) (Num (duration t))
      in if jge w 1 then Num 1 else w)"

definition crossDone :: "AnimatorStateTransition \<Rightarrow> bool" where
  "crossDone t = jge (jdiv (Num (crossFadeFrameTime t)) (Num (duration t))) 1"

text \<open>
  Index tests as JavaScript evaluates them: \<open>null >= 0\<close> holds (\<open>null\<close> converts to 0),
  an index used as a condition holds when it is neither \<open>null\<close> nor 0, and an array read
  at \<open>null\<close> is \<open>undefined\<close>.
\<close>

fun geZero :: "nat option \<Rightarrow> bool" where
  "geZero None = True"
| "geZero (Some i) = True"

fun truthy :: "nat option \<Rightarrow> bool" where
  "truthy None = False"
| "truthy (Some i) = (i \<noteq> 0)"

definition readAt :: "'x list \<Rightarrow> nat option \<Rightarrow> 'x option" where
  "readAt xs io = (case io of None \<Rightarrow> None | Some i \<Rightarrow> nth_opt xs i)"

text \<open>
  The body of the loop of \<open>_updatePlayingState\<close> for curve \<open>j\<close>; \<open>ft\<close> is the real
  frame time and \<open>sd\<close> the state data of the playing record.
\<close>

definition playCurve ::
  "Externals \<Rightarrow> bool \<Rightarrow> real \<Rightarrow> AnimatorLayerBlendingMode \<Rightarrow> jsnum \<Rightarrow> AnimatorStateData
     \<Rightarrow> nat \<Rightarrow> AnimationClipCurveData \<Rightarrow> Animator \<Rightarrow> error + Animator" where
  "playCurve X isFirstLayer w mode ft sd j c a =
     (case nth_opt (owners sd) j of
        None \<Rightarrow> Inl TypeError
      | Some k \<Rightarrow> withOwner k a (\<lambda>ow.
          if isFirstLayer then
            applyClipValue X (target ow) (ctype c) (cproperty c)
              (defaultValue ow) (Some (evaluate (curve c) ft)) 1 a
          else if mode = Additive then
            (case keys (curve c) of
               [] \<Rightarrow> Inl TypeError
             | firstFrameValue # rest \<Rightarrow>
                 bindR (calculateDiff X (valueType (curve c)) (cproperty c)
                          firstFrameValue (evaluate (curve c) ft) a) (\<lambda>a'.
                   updateAdditiveLayerValue X (target ow) (ctype c) (cproperty c)
                     (diffValueFromBasePose a') w a'))
          else
            applyClipValue X (target ow) (ctype c) (cproperty c)
              (defaultValue ow) (Some (evaluate (curve c) ft)) w a))"

definition updatePlayingState ::
  "Externals \<Rightarrow> nat \<Rightarrow> bool \<Rightarrow> real \<Rightarrow> AnimatorLayerBlendingMode \<Rightarrow> Animator
     \<Rightarrow> error + Animator" where
  "updatePlayingState X i isFirstLayer w mode a =
     (let src = srcPlayData (layerAt X a i);
          a1 = updLayer i (updPlayData src (\<lambda>p. p\<lparr>playState := Some PlayState.Playing\<rparr>)) a;
          pd = playData (layerAt X a1 i) src
      in (case state pd of
            None \<Rightarrow> Inl TypeError
          | Some s \<Rightarrow>
              (case clip (states a1 s) of
                 None \<Rightarrow> Inl TypeError
               | Some cl \<Rightarrow>
                   (case stateData pd of
                      None \<Rightarrow> Inl TypeError
                    | Some sd \<Rightarrow>
                        forDown (curves cl)
                          (playCurve X isFirstLayer w mode
                             (getTheRealFrameTime (states a1 s) (frameTime pd)) sd)
                          a1))))"

definition advanced :: "real \<Rightarrow> AnimatorStateTransition \<Rightarrow> AnimatorStateTransition" where
  "advanced deltaTime t = t\<lparr>crossFadeFrameTime := crossFadeFrameTime t + deltaTime / 1000\<rparr>"

definition curvesOf :: "AnimationClip option \<Rightarrow> AnimationClipCurveData list" where
  "curvesOf cl = (case cl of None \<Rightarrow> [] | Some c \<Rightarrow> curves c)"

text \<open>
  The body of the loop of \<open>_updateCrossFade\<close> for one cross-curve record. \<open>curFt\<close> is the
  real frame time of the source record, \<open>ft\<close> the frame time of the cross-fade and \<open>cw\<close>
  its weight. A clip that is \<open>null\<close> has no \<open>_curves\<close> to read (\<open>curvesOf\<close> gives it none,
  so every read is \<open>undefined\<close>). Both index tests of the first branch hold for every
  record, so the two other branches are never taken.
\<close>

definition crossCurve ::
  "Externals \<Rightarrow> AnimationClip option \<Rightarrow> AnimationClip option \<Rightarrow> AnimatorStateData
     \<Rightarrow> AnimatorStateData \<Rightarrow> jsnum \<Rightarrow> jsnum \<Rightarrow> jsnum \<Rightarrow> real
     \<Rightarrow> nat \<Rightarrow> CrossCurveData \<Rightarrow> Animator \<Rightarrow> error + Animator" where
  "crossCurve X curClip nextClip srcSd dstSd curFt ft cw w j item a =
     (if geZero (curCurveIndex item) \<and> geZero (nextCurveIndex item) then
        (case (readAt (curvesOf curClip) (curCurveIndex item),
               readAt (curvesOf nextClip) (nextCurveIndex item),
               readAt (owners srcSd) (curCurveIndex item)) of
           (Some c, Some n, Some k) \<Rightarrow> withOwner k a (\<lambda>ow.
             bindR (getCrossFadeValue X (ctype c) (cproperty c)
                      (Some (evaluate (curve c) curFt)) (Some (evaluate (curve n) ft)) cw)
               (\<lambda>v. applyClipValue X (target ow) (ctype c) (cproperty c)
                       (defaultValue ow) v 1 a))
         | _ \<Rightarrow> Inl TypeError)
      else if geZero (curCurveIndex item) then
        (case (readAt (curvesOf curClip) (curCurveIndex item),
               readAt (owners srcSd) (curCurveIndex item)) of
           (Some c, Some k) \<Rightarrow> withOwner k a (\<lambda>ow.
             bindR (getCrossFadeValue X (ctype c) (cproperty c) (defaultValue ow)
                      (Some (evaluate (curve c) curFt)) (jsub (Num 1) cw))
               (\<lambda>v. applyClipValue X (target ow) (ctype c) (cproperty c)
                       (defaultValue ow) v w a))
         | _ \<Rightarrow> Inl TypeError)
      else
        (case (readAt (owners dstSd) (nextCurveIndex item),
               readAt (curvesOf nextClip) (nextCurveIndex item)) of
           (Some k, Some n) \<Rightarrow> withOwner k a (\<lambda>ow.
             bindR (getCrossFadeValue X (ctype n) (cproperty n) (defaultValue ow)
                      (Some (evaluate (curve n) ft)) cw)
               (\<lambda>v. applyClipValue X (target ow) (ctype n) (cproperty n)
                       (defaultValue ow) v w a))
         | _ \<Rightarrow> Inl TypeError))"

text \<open>
  The end of \<open>_updateCrossFade\<close>: when the source record is \<open>Finished\<close>, the destination
  record becomes the source, takes the frame time, and the layer is \<open>Playing\<close>.
\<close>

definition finishCrossFade :: "Externals \<Rightarrow> nat \<Rightarrow> PlayDataRef \<Rightarrow> PlayDataRef \<Rightarrow> jsnum \<Rightarrow> Animator \<Rightarrow> Animator" where
  "finishCrossFade X i src dst ft a =
     (if playState (playData (layerAt X a i) src) = Some Finished
      then updLayer i
             (\<lambda>d. (updPlayData dst (\<lambda>p. p\<lparr>frameTime := ft\<rparr>) d)
                   \<lparr>srcPlayData := dst, layerState := LayerState.Playing\<rparr>) a
      else a)"

text \<open>\<open>_updateCrossFade\<close> for layer \<open>i\<close>, with \<open>r\<close> the transition handed in.\<close>

definition updateCrossFade ::
  "Externals \<Rightarrow> nat \<Rightarrow> TransitionRef \<Rightarrow> real \<Rightarrow> real \<Rightarrow> Animator \<Rightarrow> error + Animator" where
  "updateCrossFade X i r w deltaTime a =
     (let src = srcPlayData (layerAt X a i); dst = destPlayData (layerAt X a i);
          a1 = updTransition r (advanced deltaTime) a
      in (case (state (playData (layerAt X a i) src), state (playData (layerAt X a i) dst),
                getTransition r a1) of
            (Some ss, Some ds, Some t) \<Rightarrow>
              (let a2 = (if crossDone t
                         then updLayer i
                                (updPlayData src (\<lambda>p. p\<lparr>playState := Some Finished\<rparr>)) a1
                         else a1);
                   srcPd = playData (layerAt X a2 i) src;
                   dstPd = playData (layerAt X a2 i) dst
               in (case (stateData srcPd, stateData dstPd) of
                     (Some srcSd, Some dstSd) \<Rightarrow>
                       bindR
                         (forDown (crossCurveData a2)
                            (crossCurve X (clip (states a2 ss)) (clip (states a2 ds)) srcSd dstSd
                               (getTheRealFrameTime (states a2 ss) (frameTime srcPd))
                               (crossFrameTime t (states a1 ds)) (crossWeightOf t) w)
                            a2)
                         (\<lambda>a3. Inr (finishCrossFade X i src dst
                                        (crossFrameTime t (states a1 ds)) a3))
                   | _ \<Rightarrow> Inl TypeError))
          | _ \<Rightarrow> Inl TypeError))"

text \<open>
  The body of the loop of \<open>_updateCrossFadeFromPose\<close> for the record at position \<open>j\<close> of
  the cross-curve buffer. A record with a destination curve reads \<open>curves[j]\<close>, at the
  record's own position.
\<close>

definition poseCurve ::
  "Externals \<Rightarrow> AnimationClip \<Rightarrow> jsnum \<Rightarrow> jsnum \<Rightarrow> real
     \<Rightarrow> nat \<Rightarrow> CrossCurveData \<Rightarrow> Animator \<Rightarrow> error + Animator" where
  "poseCurve X nextClip ft cw w j item a =
     withOwner (owner item) a (\<lambda>ow.
       bindR
         (if truthy (nextCurveIndex item) then
            (case nth_opt (curves nextClip) j of
               None \<Rightarrow> Inl TypeError
             | Some c \<Rightarrow>
                 getCrossFadeValue X (otype ow) (oproperty ow)
                   (fixedPoseValue ow) (Some (evaluate (curve c) ft)) cw)
          else
            getCrossFadeValue X (otype ow) (oproperty ow)
              (fixedPoseValue ow) (defaultValue ow) cw)
         (\<lambda>v. applyClipValue X (target ow) (otype ow) (oproperty ow) (defaultValue ow) v w a))"

text \<open>
  The end of \<open>_updateCrossFadeFromPose\<close>: when the destination record is \<open>Playing\<close>, it
  becomes the source and takes the frame time; the layer state is not assigned.
\<close>

definition finishCrossFadeFromPose :: "Externals \<Rightarrow> nat \<Rightarrow> PlayDataRef \<Rightarrow> jsnum \<Rightarrow> Animator \<Rightarrow> Animator" where
  "finishCrossFadeFromPose X i dst ft a =
     (if playState (playData (layerAt X a i) dst) = Some PlayState.Playing
      then updLayer i
             (\<lambda>d. (updPlayData dst (\<lambda>p. p\<lparr>frameTime := ft\<rparr>) d)\<lparr>srcPlayData := dst\<rparr>) a
      else a)"

definition updateCrossFadeFromPose ::
  "Externals \<Rightarrow> nat \<Rightarrow> real \<Rightarrow> real \<Rightarrow> Animator \<Rightarrow> error + Animator" where
  "updateCrossFadeFromPose X i w deltaTime a =
     (let dst = destPlayData (layerAt X a i)
      in (case state (playData (layerAt X a i) dst) of
            None \<Rightarrow> Inl TypeError
          | Some ds \<Rightarrow>
              (let a1 = updTransition ForPose (advanced deltaTime) a;
                   t = transitionForPose a1;
                   a2 = (if crossDone t
                         then updLayer i
                                (updPlayData dst (\<lambda>p. p\<lparr>playState := Some PlayState.Playing\<rparr>))
                                a1
                         else a1)
               in (case clip (states a2 ds) of
                     None \<Rightarrow> Inl TypeError
                   | Some nextClip \<Rightarrow>
                       bindR
                         (forDown (crossCurveData a2)
                            (poseCurve X nextClip (crossFrameTime t (states a1 ds))
                               (crossWeightOf t) w)
                            a2)
                         (\<lambda>a3. Inr (finishCrossFadeFromPose X i dst
                                        (crossFrameTime t (states a1 ds)) a3))))))"

text \<open>\<open>_updateLayer\<close>; \<open>l\<close> is \<open>this.layers[layerIndex]\<close>.\<close>

definition updateLayer ::
  "Externals \<Rightarrow> nat \<Rightarrow> bool \<Rightarrow> real \<Rightarrow> AnimatorControllerLayer \<Rightarrow> Animator
     \<Rightarrow> error + Animator" where
  "updateLayer X i isFirstLayer deltaTime l a =
     (case layerState (layerAt X a i) of
        LayerState.Playing \<Rightarrow> updatePlayingState X i isFirstLayer (weight l) (blendingMode l) a
      | FixedCrossFading \<Rightarrow> updateCrossFadeFromPose X i (weight l) deltaTime a
      | CrossFading \<Rightarrow>
          (case state (playData (layerAt X a i) (srcPlayData (layerAt X a i))) of
             None \<Rightarrow> Inl TypeError
           | Some s \<Rightarrow>
               (case transitions (states a s) of
                  [] \<Rightarrow> Inr a
                | t # ts \<Rightarrow> updateCrossFade X i (OfState s 0) (weight l) deltaTime a))
      | Standby \<Rightarrow> Inr a)"

text \<open>
  The source record's frame time after \<open>frameTime += deltaTime / 1000\<close> and the wrap or
  clamp that follows when the record is \<open>Playing\<close>.
\<close>

definition advanceSrc ::
  "real \<Rightarrow> (sid \<Rightarrow> AnimatorState) \<Rightarrow> AnimatorStatePlayData \<Rightarrow> error + AnimatorStatePlayData" where
  "advanceSrc deltaTime sts p =
     (let p1 = p\<lparr>frameTime := jadd (frameTime p) (Num (deltaTime / 1000))\<rparr>
      in if playState p1 = Some PlayState.Playing then
           (case state p1 of
              None \<Rightarrow> Inl TypeError
            | Some s \<Rightarrow>
                Inr (if jgt (frameTime p1) (clipEndTime (sts s)) then
                       (if wrapMode (sts s) = Loop
                        then p1\<lparr>frameTime := jrem (frameTime p1) (clipEndTime (sts s))\<rparr>
                        else p1\<lparr>frameTime := Num (clipEndTime (sts s)),
                                playState := Some Finished\<rparr>)
                     else p1))
         else Inr p1)"

text \<open>The body of the loop of \<open>update\<close> for layer \<open>i\<close>; \<open>deltaTime\<close> is already times speed.\<close>

definition updateStep ::
  "Externals \<Rightarrow> real \<Rightarrow> nat \<times> AnimatorControllerLayer \<Rightarrow> Animator \<Rightarrow> error + Animator" where
  "updateStep X deltaTime il a =
     (let i = fst il;
          a1 = getAnimatorLayerData X i a;
          src = srcPlayData (layerAt X a1 i)
      in if layerState (layerAt X a1 i) = Standby then Inr a1
         else bindR (advanceSrc deltaTime (states a1) (playData (layerAt X a1 i) src)) (\<lambda>p.
                updateLayer X i (i = 0) deltaTime (snd il)
                  (updLayer i (updPlayData src (\<lambda>q. p)) a1)))"

definition update :: "Externals \<Rightarrow> real \<Rightarrow> Animator \<Rightarrow> error + Animator" where
  "update X deltaTime a =
     (if speed a = 0 then Inr a
      else (case animatorController a of
              None \<Rightarrow> Inr a
            | Some layers \<Rightarrow> runAll (enumerate 0 layers) (updateStep X (deltaTime * speed a)) a))"

section \<open>Reading a layer, and a small animator to run\<close>

definition srcRecord :: "Externals \<Rightarrow> Animator \<Rightarrow> nat \<Rightarrow> AnimatorStatePlayData" where
  "srcRecord X a i = playData (layerAt X a i) (srcPlayData (layerAt X a i))"

definition destRecord :: "Externals \<Rightarrow> Animator \<Rightarrow> nat \<Rightarrow> AnimatorStatePlayData" where
  "destRecord X a i = playData (layerAt X a i) (destPlayData (layerAt X a i))"

text \<open>
  What a caller can read of layer \<open>i\<close> after a call: the layer state, and the state,
  frame time and play state of the source record.
\<close>

definition observe ::
  "Externals \<Rightarrow> nat \<Rightarrow> error + Animator
     \<Rightarrow> error + (LayerState \<times> sid option \<times> jsnum \<times> PlayState option)" where
  "observe X i r =
     (case r of
        Inl e \<Rightarrow> Inl e
      | Inr a \<Rightarrow> Inr (layerState (layerAt X a i), state (srcRecord X a i),
                      frameTime (srcRecord X a i), playState (srcRecord X a i)))"


text \<open>
  An instance of the parameters, for running the model: linear interpolation, the simplest
  quaternion and weighting functions of the right type, a new layer on standby with two
  unset records, and owners that snapshot the property they animate (the default value
  once, the fixed pose each time).
\<close>

definition readProperty :: "transform \<Rightarrow> AnimationProperty \<Rightarrow> InterpolableValue" where
  "readProperty t p = (case p of Position \<Rightarrow> VVector3 (position t)
                        | Rotation \<Rightarrow> VQuaternion (rotationQuaternion t)
                        | Scale \<Rightarrow> VVector3 (scale t))"

definition freshPlayData :: AnimatorStatePlayData where
  "freshPlayData = \<lparr>state = None, frameTime = NaN, playState = None, stateData = None\<rparr>"

definition exampleExternals :: Externals where
  "exampleExternals =
     \<lparr>lerp = (\<lambda>s d t. \<lparr>x3 = jadd (x3 s) (jmul (jsub (x3 d) (x3 s)) t),
                       y3 = jadd (y3 s) (jmul (jsub (y3 d) (y3 s)) t),
                       z3 = jadd (z3 s) (jmul (jsub (z3 d) (z3 s)) t)\<rparr>),
      slerp = (\<lambda>s d t. d),
      conjugate = (\<lambda>q. \<lparr>qx = jneg (qx q), qy = jneg (qy q), qz = jneg (qz q), qw = qw q\<rparr>),
      multiply = (\<lambda>p q. q),
      normalize = (\<lambda>q. q),
      calQuaternionWeight = (\<lambda>q w. q),
      calScaleWeight = (\<lambda>s w. s),
      newLayerData =
        \<lparr>animatorStateDataMap = Map.empty,
         playData = (\<lambda>r. freshPlayData),
         srcPlayData = RecordA, destPlayData = RecordB,
         layerState = Standby, layerCrossCurveMark = 0\<rparr>,
      newOwner = (\<lambda>e ty p. \<lparr>target = e, otype = ty, oproperty = p, defaultValue = None,
                             fixedPoseValue = None, crossCurveMark = 0, crossCurveIndex = None\<rparr>),
      newTransition = \<lparr>duration = 0, offset = 0, crossFadeFrameTime = 0\<rparr>,
      saveDefaultValue = (\<lambda>t ow. if defaultValue ow = None
                                   then ow\<lparr>defaultValue := Some (readProperty t (oproperty ow))\<rparr>
                                   else ow),
      saveFixedPoseValue = (\<lambda>t ow. ow\<lparr>fixedPoseValue := Some (readProperty t (oproperty ow))\<rparr>)\<rparr>"

definition vec3 :: "real \<Rightarrow> real \<Rightarrow> real \<Rightarrow> vector3" where
  "vec3 a b c = \<lparr>x3 = Num a, y3 = Num b, z3 = Num c\<rparr>"

definition exampleState :: "real \<Rightarrow> WrapMode \<Rightarrow> AnimatorState" where
  "exampleState len wm =
     \<lparr>clip = Some \<lparr>clipLength = len, curves = []\<rparr>, clipEndTime = len, wrapMode = wm,
      transitions = [], getTheRealFrameTime = (\<lambda>t. t)\<rparr>"

text \<open>
  One layer with the states \<open>Idle\<close> (1 s, looping), \<open>Walk\<close> (0.5 s, clamped) and \<open>Run\<close>
  (1 s, clamped), none with a transition yet; nothing has been played.
\<close>

definition exampleStates :: "sid \<Rightarrow> AnimatorState" where
  "exampleStates s = (if s = 0 then exampleState 1 Loop
                      else if s = 1 then exampleState (1 / 2) Clamp
                      else exampleState 1 Clamp)"

definition exampleAnimator :: Animator where
  "exampleAnimator =
     \<lparr>speed = 1,
      animatorController =
        Some [\<lparr>weight = 1, blendingMode = Override,
               stateMachine = [(''Idle'', 0), (''Walk'', 1), (''Run'', 2)]\<rparr>],
      states = exampleStates,
      diffValueFromBasePose = None,
      diffFloatFromBasePose = Num 0,
      diffVector2FromBasePose = \<lparr>x2 = Num 0, y2 = Num 0\<rparr>,
      diffVector3FromBasePose = vec3 0 0 0,
      diffVector4FromBasePose = \<lparr>x4 = Num 0, y4 = Num 0, z4 = Num 0, w4 = Num 0\<rparr>,
      diffQuaternionFromBasePose = \<lparr>qx = Num 0, qy = Num 0, qz = Num 0, qw = Num 1\<rparr>,
      animatorLayersData = Map.empty,
      crossCurveData = [],
      transitionForPose = \<lparr>duration = 0, offset = 0, crossFadeFrameTime = 0\<rparr>,
      animationCureOwners = Map.empty,
      transforms = (\<lambda>e. \<lparr>position = vec3 0 0 0,
                          rotationQuaternion = \<lparr>qx = Num 0, qy = Num 0, qz = Num 0, qw = Num 1\<rparr>,
                          scale = vec3 1 1 1\<rparr>),
      findByPath = (\<lambda>p. None)\<rparr>"

section \<open>Relations between the animator before and after a step\<close>

definition keepsPlayback :: "Animator \<Rightarrow> Animator \<Rightarrow> bool" where
  "keepsPlayback a a' =
     (animatorLayersData a' = animatorLayersData a \<and> states a' = states a
      \<and> transitionForPose a' = transitionForPose a \<and> crossCurveData a' = crossCurveData a
      \<and> animatorController a' = animatorController a \<and> speed a' = speed a)"

definition keepsLayers :: "Animator \<Rightarrow> Animator \<Rightarrow> bool" where
  "keepsLayers a a' =
     (animatorLayersData a' = animatorLayersData a \<and> states a' = states a
      \<and> transitionForPose a' = transitionForPose a
      \<and> animatorController a' = animatorController a \<and> speed a' = speed a)"

text \<open>
  The transition that a returned \<open>crossFade\<close> on layer \<open>i\<close> has written, read from the
  animator before (\<open>a\<close>) and after (\<open>a'\<close>) the call: the pose transition when the layer
  was on standby or cross-fading, the transition added to the source state when it was
  playing.
\<close>

definition configuredTransition ::
  "Externals \<Rightarrow> nat \<Rightarrow> Animator \<Rightarrow> Animator \<Rightarrow> AnimatorStateTransition option" where
  "configuredTransition X i a a' =
     (case layerState (layerAt X a i) of
        Standby \<Rightarrow> Some (transitionForPose a')
      | CrossFading \<Rightarrow> Some (transitionForPose a')
      | LayerState.Playing \<Rightarrow>
          (case state (srcRecord X a i) of
             None \<Rightarrow> None
           | Some s0 \<Rightarrow>
               nth_opt (transitions (states a' s0)) (length (transitions (states a s0))))
      | FixedCrossFading \<Rightarrow> None)"

text \<open>
  What a step of \<open>update\<close> for layer \<open>j\<close> leaves alone: the data of the other layers, and
  of every state its clip, end time and wrap mode.
\<close>

definition stepFrame :: "nat \<Rightarrow> Animator \<Rightarrow> Animator \<Rightarrow> bool" where
  "stepFrame j a a' =
     ((\<forall>k. k \<noteq> j \<longrightarrow> animatorLayersData a' k = animatorLayersData a k)
      \<and> (\<forall>s. clip (states a' s) = clip (states a s)
             \<and> clipEndTime (states a' s) = clipEndTime (states a s)
             \<and> wrapMode (states a' s) = wrapMode (states a s))
      \<and> animatorController a' = animatorController a \<and> speed a' = speed a)"

section \<open>The transition a cross-fade finds during an update\<close>

text \<open>
  \<open>update\<close> runs the layers in order, and every layer that is \<open>FixedCrossFading\<close>
  advances the one \<open>_transitionForPose\<close> of the animator. \<open>fixedBefore\<close> counts the
  layers before \<open>i\<close> that do, and \<open>poseTransitionAt\<close> is the pose transition after the
  step for layer \<open>i\<close> has advanced it too; \<open>d\<close> is the delta time, already times speed.
\<close>

definition fixedBefore :: "Externals \<Rightarrow> Animator \<Rightarrow> nat \<Rightarrow> nat" where
  "fixedBefore X a i =
     length (filter (\<lambda>j. layerState (layerAt X a j) = FixedCrossFading) [0..<i])"

definition poseTransitionAt :: "Externals \<Rightarrow> real \<Rightarrow> Animator \<Rightarrow> nat \<Rightarrow> AnimatorStateTransition" where
  "poseTransitionAt X d a i = (advanced d ^^ Suc (fixedBefore X a i)) (transitionForPose a)"

text \<open>
  Likewise a layer that is \<open>CrossFading\<close> advances the first transition of its source
  state, which the layers with the same source state share.
\<close>

definition fadingBefore :: "Externals \<Rightarrow> Animator \<Rightarrow> sid \<Rightarrow> nat \<Rightarrow> nat" where
  "fadingBefore X a s i =
     length (filter (\<lambda>j. layerState (layerAt X a j) = CrossFading
                          \<and> state (srcRecord X a j) = Some s) [0..<i])"



section \<open>The states of the example run\<close>

text \<open>
  The animator of the example after each call of the runs used below, written out. The
  clips of the example have no curves, so no owner is bound and the cross-curve buffer
  stays empty.
\<close>

definition noOwners :: AnimatorStateData where
  "noOwners = \<lparr>owners = []\<rparr>"

definition recordOf :: "sid \<Rightarrow> real \<Rightarrow> PlayState \<Rightarrow> AnimatorStatePlayData" where
  "recordOf s t ps = \<lparr>state = Some s, frameTime = Num t, playState = Some ps, stateData = Some noOwners\<rparr>"

definition idlePlaying :: Animator where
  "idlePlaying = exampleAnimator\<lparr>animatorLayersData :=
     [0 \<mapsto> \<lparr>animatorStateDataMap = [''Idle'' \<mapsto> noOwners],
            playData = (\<lambda>r. freshPlayData)(RecordA := recordOf 0 0 PlayState.Playing),
            srcPlayData = RecordA, destPlayData = RecordB,
            layerState = LayerState.Playing, layerCrossCurveMark = 0\<rparr>]\<rparr>"

definition crossFadingToWalk :: Animator where
  "crossFadingToWalk = exampleAnimator
     \<lparr>states := exampleStates(0 := (exampleStates 0)\<lparr>transitions :=
                    [\<lparr>duration = 1 / 4, offset = 0, crossFadeFrameTime = 0\<rparr>]\<rparr>),
      animatorLayersData :=
     [0 \<mapsto> \<lparr>animatorStateDataMap = [''Idle'' \<mapsto> noOwners, ''Walk'' \<mapsto> noOwners],
            playData = (\<lambda>r. freshPlayData)(RecordA := recordOf 0 0 Fading,
                                              RecordB := recordOf 1 0 Crossing),
            srcPlayData = RecordA, destPlayData = RecordB,
            layerState = CrossFading, layerCrossCurveMark = 1\<rparr>]\<rparr>"

definition halfWayToWalk :: Animator where
  "halfWayToWalk = exampleAnimator
     \<lparr>states := exampleStates(0 := (exampleStates 0)\<lparr>transitions :=
                    [\<lparr>duration = 1 / 4, offset = 0, crossFadeFrameTime = 1 / 8\<rparr>]\<rparr>),
      animatorLayersData :=
     [0 \<mapsto> \<lparr>animatorStateDataMap = [''Idle'' \<mapsto> noOwners, ''Walk'' \<mapsto> noOwners],
            playData = (\<lambda>r. freshPlayData)(RecordA := recordOf 0 (1 / 8) Fading,
                                              RecordB := recordOf 1 0 Crossing),
            srcPlayData = RecordA, destPlayData = RecordB,
            layerState = CrossFading, layerCrossCurveMark = 1\<rparr>]\<rparr>"

definition walkPromoted :: Animator where
  "walkPromoted = exampleAnimator
     \<lparr>states := exampleStates(0 := (exampleStates 0)\<lparr>transitions :=
                    [\<lparr>duration = 1 / 4, offset = 0, crossFadeFrameTime = 1 / 4\<rparr>]\<rparr>),
      animatorLayersData :=
     [0 \<mapsto> \<lparr>animatorStateDataMap = [''Idle'' \<mapsto> noOwners, ''Walk'' \<mapsto> noOwners],
            playData = (\<lambda>r. freshPlayData)(RecordA := recordOf 0 (1 / 4) Finished,
                                              RecordB := recordOf 1 (1 / 4) Crossing),
            srcPlayData = RecordB, destPlayData = RecordB,
            layerState = LayerState.Playing, layerCrossCurveMark = 1\<rparr>]\<rparr>"

definition crossFadingToRun :: Animator where
  "crossFadingToRun = exampleAnimator
     \<lparr>states := exampleStates
        (0 := (exampleStates 0)\<lparr>transitions :=
                 [\<lparr>duration = 1 / 4, offset = 0, crossFadeFrameTime = 1 / 4\<rparr>]\<rparr>,
         1 := (exampleStates 1)\<lparr>transitions :=
                 [\<lparr>duration = 1 / 2, offset = 0, crossFadeFrameTime = 0\<rparr>]\<rparr>),
      animatorLayersData :=
     [0 \<mapsto> \<lparr>animatorStateDataMap =
              [''Idle'' \<mapsto> noOwners, ''Walk'' \<mapsto> noOwners, ''Run'' \<mapsto> noOwners],
            playData = (\<lambda>r. freshPlayData)(RecordA := recordOf 0 (1 / 4) Finished,
                                              RecordB := recordOf 2 0 Fading),
            srcPlayData = RecordB, destPlayData = RecordB,
            layerState = CrossFading, layerCrossCurveMark = 2\<rparr>]\<rparr>"

definition fixedToRun :: Animator where
  "fixedToRun = exampleAnimator
     \<lparr>states := exampleStates(0 := (exampleStates 0)\<lparr>transitions :=
                    [\<lparr>duration = 1 / 4, offset = 0, crossFadeFrameTime = 0\<rparr>]\<rparr>),
      animatorLayersData :=
     [0 \<mapsto> \<lparr>animatorStateDataMap =
              [''Idle'' \<mapsto> noOwners, ''Walk'' \<mapsto> noOwners, ''Run'' \<mapsto> noOwners],
            playData = (\<lambda>r. freshPlayData)(RecordA := recordOf 0 0 Fading,
                                              RecordB := recordOf 2 0 Crossing),
            srcPlayData = RecordA, destPlayData = RecordB,
            layerState = FixedCrossFading, layerCrossCurveMark = 1\<rparr>],
      transitionForPose := \<lparr>duration = 1 / 2, offset = 0, crossFadeFrameTime = 0\<rparr>\<rparr>"

definition walkPlaying :: Animator where
  "walkPlaying = exampleAnimator\<lparr>animatorLayersData :=
     [0 \<mapsto> \<lparr>animatorStateDataMap = [''Walk'' \<mapsto> noOwners],
            playData = (\<lambda>r. freshPlayData)(RecordA := recordOf 1 0 PlayState.Playing),
            srcPlayData = RecordA, destPlayData = RecordB,
            layerState = LayerState.Playing, layerCrossCurveMark = 0\<rparr>]\<rparr>"


definition layerOf ::
  "string list \<Rightarrow> AnimatorStatePlayData \<Rightarrow> AnimatorStatePlayData \<Rightarrow> PlayDataRef
     \<Rightarrow> LayerState \<Rightarrow> nat \<Rightarrow> AnimatorLayerData" where
  "layerOf names ra rb src ls mark =
     \<lparr>animatorStateDataMap = (\<lambda>n. if n \<in> set names then Some noOwners else None),
      playData = (\<lambda>r. case r of RecordA \<Rightarrow> ra | RecordB \<Rightarrow> rb),
      srcPlayData = src, destPlayData = RecordB,
      layerState = ls, layerCrossCurveMark = mark\<rparr>"

definition twoLayerRun ::
  "AnimatorLayerData option \<Rightarrow> AnimatorLayerData option \<Rightarrow> AnimatorStateTransition list
     \<Rightarrow> AnimatorStateTransition \<Rightarrow> Animator" where
  "twoLayerRun l0 l1 ts tp = exampleAnimator
     \<lparr>animatorController :=
        Some [\<lparr>weight = 1, blendingMode = Override,
                stateMachine = [(''Idle'', 0), (''Walk'', 1), (''Run'', 2)]\<rparr>,
              \<lparr>weight = 1, blendingMode = Override,
                stateMachine = [(''Idle'', 0), (''Walk'', 1), (''Run'', 2)]\<rparr>],
      states := exampleStates(1 := (exampleStates 1)\<lparr>transitions := ts\<rparr>),
      animatorLayersData := (\<lambda>k. if k = 0 then l0 else if k = 1 then l1 else None),
      transitionForPose := tp\<rparr>"

definition halfSecond :: "real \<Rightarrow> AnimatorStateTransition" where
  "halfSecond e = \<lparr>duration = 1 / 2, offset = 0, crossFadeFrameTime = e\<rparr>"

definition fixedToIdle :: AnimatorLayerData where
  "fixedToIdle = layerOf [''Walk'', ''Run'', ''Idle''] (recordOf 1 0 Fading) (recordOf 0 0 Crossing)
                   RecordA FixedCrossFading 1"

text \<open>Both layers \<open>FixedCrossFading\<close> towards \<open>Idle\<close>, before any update.\<close>

definition twoFixed :: Animator where
  "twoFixed =
     twoLayerRun (Some fixedToIdle) (Some fixedToIdle) [halfSecond 0, halfSecond 0] (halfSecond 0)"

text \<open>
  Both layers after the update that promotes their records of \<open>Idle\<close>: layer 0 at 0.5,
  layer 1 at 1, the pose transition advanced twice.
\<close>

definition twoPromoted :: Animator where
  "twoPromoted =
     twoLayerRun
       (Some (layerOf [''Walk'', ''Run'', ''Idle''] (recordOf 1 (1 / 2) Fading)
                (recordOf 0 (1 / 2) PlayState.Playing) RecordB FixedCrossFading 1))
       (Some (layerOf [''Walk'', ''Run'', ''Idle''] (recordOf 1 (1 / 2) Fading)
                (recordOf 0 1 PlayState.Playing) RecordB FixedCrossFading 1))
       [halfSecond 0, halfSecond 0] (halfSecond 1)"

section \<open>Frame lemmas\<close>

lemma keepsPlayback_refl [simp]: "keepsPlayback a a"
  by (simp add: keepsPlayback_def)

lemma keepsPlayback_trans: "keepsPlayback a b \<Longrightarrow> keepsPlayback b c \<Longrightarrow> keepsPlayback a c"
  by (simp add: keepsPlayback_def)

lemma bindR_Inr: "bindR r f = Inr v \<Longrightarrow> \<exists>u. r = Inr u \<and> f u = Inr v"
  by (cases r) (simp_all add: bindR_def)

lemma bindR_simps [simp]: "bindR (Inr u) f = f u" "bindR (Inl e) f = Inl e"
  by (simp_all add: bindR_def)

lemma runAll_invariant:
  assumes "runAll xs f s = Inr s'" and "P s"
    and "\<And>x t t'. x \<in> set xs \<Longrightarrow> P t \<Longrightarrow> f x t = Inr t' \<Longrightarrow> P t'"
  shows "P s'"
  using assms
proof (induction xs arbitrary: s)
  case Nil
  then show ?case by simp
next
  case (Cons x xs)
  from Cons.prems(1) obtain t where t: "f x s = Inr t" "runAll xs f t = Inr s'"
    by (auto dest: bindR_Inr)
  have "P t" using Cons.prems(2) t(1) by (auto intro: Cons.prems(3))
  then show ?case using Cons.IH [OF t(2)] Cons.prems(3) by auto
qed

lemma runAll_append: "runAll (xs @ ys) f s = bindR (runAll xs f s) (runAll ys f)"
  by (induction xs arbitrary: s) (auto simp: bindR_def split: sum.splits)

lemma forDown_invariant:
  assumes "forDown xs f s = Inr s'" and "P s"
    and "\<And>i x t t'. P t \<Longrightarrow> f i x t = Inr t' \<Longrightarrow> P t'"
  shows "P s'"
  using assms(1,2) unfolding forDown_def
  by (rule runAll_invariant) (use assms(3) in auto)

lemma asVector3_cases: "asVector3 v = Inr u \<Longrightarrow> v = Some (VVector3 u)"
  by (auto simp: asVector3_def split: option.splits InterpolableValue.splits)

lemma setTransform_keeps [simp]: "keepsPlayback a (setTransform e f t) = keepsPlayback a t"
  by (simp add: keepsPlayback_def setTransform_def)

lemma applyClipValue_keeps:
  "applyClipValue X tgt ty property sv dv w a = Inr a' \<Longrightarrow> keepsPlayback a a'"
  by (auto simp: applyClipValue_def split: if_splits AnimationProperty.splits dest!: bindR_Inr)

lemma updateAdditiveLayerValue_keeps:
  "updateAdditiveLayerValue X tgt ty property dv w a = Inr a' \<Longrightarrow> keepsPlayback a a'"
  by (auto simp: updateAdditiveLayerValue_def Let_def keepsPlayback_def setTransform_def
      split: if_splits AnimationProperty.splits dest!: bindR_Inr)

lemma calculateDiff_keeps:
  "calculateDiff X vt property sv dv a = Inr a' \<Longrightarrow> keepsPlayback a a'"
  by (auto simp: calculateDiff_def keepsPlayback_def calculateFloatDiff_def
        calculateVector2Diff_def calculateVector3Diff_def calculateVector4Diff_def
        calculateQuaternionDiff_def
      split: if_splits InterpolableValue.splits)

lemma setOwner_keeps [simp]: "keepsPlayback a (setOwner k ow t) = keepsPlayback a t"
  by (simp add: keepsPlayback_def setOwner_def)

lemma withOwner_Inr: "withOwner k a f = Inr v \<Longrightarrow> \<exists>ow. animationCureOwners a k = Some ow \<and> f ow = Inr v"
  by (auto simp: withOwner_def split: option.splits)

lemma saveDefaultValues_keeps:
  "saveDefaultValues X sd a = Inr a' \<Longrightarrow> keepsPlayback a a'"
  unfolding saveDefaultValues_def
  by (erule forDown_invariant [where P = "keepsPlayback a"])
     (auto dest!: withOwner_Inr intro: keepsPlayback_trans)

lemma revertDefaultValue_keeps:
  "revertDefaultValue pd a = Inr a' \<Longrightarrow> keepsPlayback a a'"
  unfolding revertDefaultValue_def
  apply (clarsimp split: option.splits)
  apply (erule forDown_invariant [where P = "keepsPlayback a"])
   apply simp
  apply (auto dest!: withOwner_Inr bindR_Inr split: option.splits AnimationProperty.splits intro: keepsPlayback_trans)
  done

lemma layerAt_getAnimatorLayerData [simp]:
  "layerAt X (getAnimatorLayerData X i a) j = layerAt X a j"
  by (simp add: layerAt_def getAnimatorLayerData_def)

lemma getAnimatorLayerData_exists [simp]:
  "animatorLayersData (getAnimatorLayerData X i a) i = Some (layerAt X a i)"
  by (simp add: getAnimatorLayerData_def)

lemma getAnimatorLayerData_fields [simp]:
  "states (getAnimatorLayerData X i a) = states a"
  "transitionForPose (getAnimatorLayerData X i a) = transitionForPose a"
  "crossCurveData (getAnimatorLayerData X i a) = crossCurveData a"
  "animatorController (getAnimatorLayerData X i a) = animatorController a"
  "speed (getAnimatorLayerData X i a) = speed a"
  by (simp_all add: getAnimatorLayerData_def)

lemma getAnimatorLayerData_other:
  "k \<noteq> i \<Longrightarrow> animatorLayersData (getAnimatorLayerData X i a) k = animatorLayersData a k"
  by (simp add: getAnimatorLayerData_def)

lemma updLayer_fields [simp]:
  "states (updLayer i f a) = states a"
  "transitionForPose (updLayer i f a) = transitionForPose a"
  "crossCurveData (updLayer i f a) = crossCurveData a"
  "animatorController (updLayer i f a) = animatorController a"
  "speed (updLayer i f a) = speed a"
  "animationCureOwners (updLayer i f a) = animationCureOwners a"
  "transforms (updLayer i f a) = transforms a"
  by (simp_all add: updLayer_def)

lemma updLayer_layers:
  "animatorLayersData (updLayer i f a) k =
     (if k = i then map_option f (animatorLayersData a i) else animatorLayersData a k)"
  by (simp add: updLayer_def)

lemma layerAt_updLayer:
  "animatorLayersData a i = Some d \<Longrightarrow>
   layerAt X (updLayer i f a) k = (if k = i then f d else layerAt X a k)"
  by (simp add: layerAt_def updLayer_def)

lemma layerAt_keeps: "keepsPlayback a a' \<Longrightarrow> layerAt X a' k = layerAt X a k"
  by (simp add: keepsPlayback_def layerAt_def)

lemma bindOwner_keeps: "bindOwner X c a = Inr (k, a') \<Longrightarrow> keepsPlayback a a'"
  by (auto simp: bindOwner_def split: option.splits)

lemma bindOwners_keeps: "bindOwners X cs acc a = Inr (ks, a') \<Longrightarrow> keepsPlayback a a'"
proof (induction cs arbitrary: acc a)
  case Nil
  then show ?case by simp
next
  case (Cons c cs)
  from Cons.prems obtain k b where b: "bindOwner X c a = Inr (k, b)"
    and rest: "bindOwners X cs (k # acc) b = Inr (ks, a')"
    by (auto dest!: bindR_Inr)
  show ?case
    using bindOwner_keeps [OF b] Cons.IH [OF rest] by (rule keepsPlayback_trans)
qed

text \<open>Binding the state data of a state touches, of the playback data, only the layer's cache.\<close>

lemma getAnimatorStateData_result:
  assumes "getAnimatorStateData X n s i a = Inr (sd, a')"
  shows "states a' = states a" and "transitionForPose a' = transitionForPose a"
    and "crossCurveData a' = crossCurveData a"
    and "animatorController a' = animatorController a" and "speed a' = speed a"
    and "k \<noteq> i \<Longrightarrow> animatorLayersData a' k = animatorLayersData a k"
    and "animatorLayersData a i = Some d \<Longrightarrow>
         \<exists>m. animatorLayersData a' i = Some (d\<lparr>animatorStateDataMap := m\<rparr>)"
proof -
  have "states a' = states a \<and> transitionForPose a' = transitionForPose a
      \<and> crossCurveData a' = crossCurveData a
      \<and> animatorController a' = animatorController a \<and> speed a' = speed a
      \<and> (k \<noteq> i \<longrightarrow> animatorLayersData a' k = animatorLayersData a k)
      \<and> (animatorLayersData a i = Some d \<longrightarrow>
           (\<exists>m. animatorLayersData a' i = Some (d\<lparr>animatorStateDataMap := m\<rparr>)))"
  proof (cases "animatorStateDataMap (layerAt X a i) n")
    case (Some sd0)
    with assms have "a' = a" by (simp add: getAnimatorStateData_def)
    then show ?thesis
      by (auto intro: exI [of _ "animatorStateDataMap d"])
  next
    case None
    with assms obtain ks b where b: "saveAnimatorStateData X s a = Inr (ks, b)"
      and a': "a' = updLayer i (\<lambda>d. d\<lparr>animatorStateDataMap :=
                                      (animatorStateDataMap d)(n \<mapsto> \<lparr>owners = ks\<rparr>)\<rparr>) b"
      by (auto simp: getAnimatorStateData_def dest!: bindR_Inr)
    from b have "keepsPlayback a b"
      by (auto simp: saveAnimatorStateData_def split: option.splits dest: bindOwners_keeps)
    then show ?thesis
      unfolding a' by (auto simp: keepsPlayback_def updLayer_layers)
  qed
  then show "states a' = states a" and "transitionForPose a' = transitionForPose a"
    and "crossCurveData a' = crossCurveData a"
    and "animatorController a' = animatorController a" and "speed a' = speed a"
    and "k \<noteq> i \<Longrightarrow> animatorLayersData a' k = animatorLayersData a k"
    and "animatorLayersData a i = Some d \<Longrightarrow>
         \<exists>m. animatorLayersData a' i = Some (d\<lparr>animatorStateDataMap := m\<rparr>)"
    by auto
qed

lemma keepsLayers_refl [simp]: "keepsLayers a a"
  by (simp add: keepsLayers_def)

lemma keepsLayers_simps [simp]:
  "keepsLayers a (setOwner k ow t) = keepsLayers a t"
  "keepsLayers a (addCrossCurveData k c n t) = keepsLayers a t"
  "keepsLayers a (t\<lparr>crossCurveData := xs\<rparr>) = keepsLayers a t"
  by (simp_all add: keepsLayers_def setOwner_def addCrossCurveData_def)

lemma keepsPlayback_keepsLayers: "keepsPlayback a a' \<Longrightarrow> keepsLayers a a'"
  by (simp add: keepsPlayback_def keepsLayers_def)

lemma keepsLayers_trans: "keepsLayers a b \<Longrightarrow> keepsLayers b c \<Longrightarrow> keepsLayers a c"
  by (simp add: keepsLayers_def)

lemma layerAt_keepsLayers: "keepsLayers a a' \<Longrightarrow> layerAt X a' k = layerAt X a k"
  by (simp add: keepsLayers_def layerAt_def)

lemma prepareSrcCrossData_keeps:
  "prepareSrcCrossData X pd mark sf a = Inr a' \<Longrightarrow> keepsLayers a a'"
  unfolding prepareSrcCrossData_def
  apply (clarsimp split: option.splits)
  apply (erule forDown_invariant [where P = "keepsLayers a"])
   apply simp
  apply (auto dest!: withOwner_Inr simp: Let_def)
  done

lemma prepareDestCrossData_keeps:
  "prepareDestCrossData X pd mark sf a = Inr a' \<Longrightarrow> keepsLayers a a'"
  unfolding prepareDestCrossData_def
  apply (clarsimp split: option.splits)
  apply (erule forDown_invariant [where P = "keepsLayers a"])
   apply simp
  apply (auto dest!: withOwner_Inr simp: Let_def split: if_splits option.splits)
  done

lemma prepareCrossFading_keeps:
  "prepareCrossFading X i a = Inr a' \<Longrightarrow> keepsLayers a a'"
  by (auto simp: prepareCrossFading_def Let_def dest!: bindR_Inr
      dest: prepareSrcCrossData_keeps prepareDestCrossData_keeps intro: keepsLayers_trans)

lemma prepareStandbyCrossFading_keeps:
  "prepareStandbyCrossFading X i a = Inr a' \<Longrightarrow> keepsLayers a a'"
  by (auto simp: prepareStandbyCrossFading_def Let_def dest!: bindR_Inr
      dest: prepareSrcCrossData_keeps prepareDestCrossData_keeps intro: keepsLayers_trans)

lemma prepareFiexdPoseCrossFading_keeps:
  assumes "prepareFiexdPoseCrossFading X i a = Inr a'"
  shows "keepsLayers a a'"
proof -
  from assms obtain b where
    b: "forDown (crossCurveData a)
          (\<lambda>j item a. withOwner (owner item) a (\<lambda>ow.
             Inr (setOwner (owner item)
                    (saveFixedPoseValue X (transforms a (target ow)) ow) a))) a = Inr b"
    and a': "prepareDestCrossData X
         (playData (layerAt X b i) (destPlayData (layerAt X b i)))
         (layerCrossCurveMark (layerAt X b i)) True b = Inr a'"
    by (auto simp: prepareFiexdPoseCrossFading_def dest!: bindR_Inr)
  from b have "keepsLayers a b"
    by (rule forDown_invariant [where P = "keepsLayers a"]) (auto dest!: withOwner_Inr)
  then show ?thesis
    using prepareDestCrossData_keeps [OF a'] by (rule keepsLayers_trans)
qed

lemma clearCrossData_fields [simp]:
  "states (clearCrossData i a) = states a"
  "transitionForPose (clearCrossData i a) = transitionForPose a"
  "animatorController (clearCrossData i a) = animatorController a"
  "speed (clearCrossData i a) = speed a"
  by (simp_all add: clearCrossData_def)

lemma keepsLayers_states: "keepsLayers a a' \<Longrightarrow> states a' = states a"
  and keepsLayers_pose: "keepsLayers a a' \<Longrightarrow> transitionForPose a' = transitionForPose a"
  by (simp_all add: keepsLayers_def)

lemma crossFadeSwitch_pose:
  assumes "crossFadeSwitch X ls i src st a = Inr (tr, a')"
    and "ls = Standby \<or> ls = CrossFading"
  shows "tr = Some ForPose \<and> states a' = states a \<and> transitionForPose a' = transitionForPose a"
proof -
  from assms have "tr = Some ForPose
     \<and> (keepsLayers (clearCrossData i (updLayer i (\<lambda>d. d\<lparr>layerState := FixedCrossFading\<rparr>) a)) a'
        \<or> keepsLayers (updLayer i (\<lambda>d. d\<lparr>layerState := FixedCrossFading\<rparr>) a) a')"
    by (auto simp: crossFadeSwitch_def dest!: bindR_Inr
        dest: prepareStandbyCrossFading_keeps prepareFiexdPoseCrossFading_keeps)
  then show ?thesis
    by (auto dest: keepsLayers_states keepsLayers_pose)
qed

lemma crossFadeSwitch_playing:
  assumes "crossFadeSwitch X LayerState.Playing i src st a = Inr (tr, a')"
  shows "\<exists>s0. st = Some s0 \<and> tr = Some (OfState s0 (length (transitions (states a s0))))
       \<and> states a' = (states a)
            (s0 := (states a s0)\<lparr>transitions := transitions (states a s0) @ [newTransition X]\<rparr>)
       \<and> transitionForPose a' = transitionForPose a"
proof -
  from assms obtain b s0 r where
    b: "prepareCrossFading X i
          (clearCrossData i (updLayer i (\<lambda>d. d\<lparr>layerState := CrossFading\<rparr>) a)) = Inr b"
    and st: "st = Some s0"
    and r: "(r, a') = addTransition X s0
               (updLayer i (updPlayData src (\<lambda>p. p\<lparr>playState := Some Fading\<rparr>)) b)"
    and tr: "tr = Some r"
    by (auto simp: crossFadeSwitch_def Let_def dest!: bindR_Inr
        split: option.splits prod.splits)
  from prepareCrossFading_keeps [OF b]
  have "states b = states a" and "transitionForPose b = transitionForPose a"
    by (auto dest: keepsLayers_states keepsLayers_pose)
  with r st tr show ?thesis
    by (simp add: addTransition_def)
qed

lemma crossFadeSwitch_fixed:
  "crossFadeSwitch X FixedCrossFading i src st a = Inr (tr, a') \<Longrightarrow> tr = None"
  by (auto simp: crossFadeSwitch_def dest!: bindR_Inr)

lemma stepFrame_refl [simp]: "stepFrame j a a"
  by (simp add: stepFrame_def)

lemma stepFrame_trans: "stepFrame j a b \<Longrightarrow> stepFrame j b c \<Longrightarrow> stepFrame j a c"
  by (simp add: stepFrame_def)

lemma keepsPlayback_stepFrame: "keepsPlayback a a' \<Longrightarrow> stepFrame j a a'"
  by (simp add: keepsPlayback_def stepFrame_def)

lemma stepFrame_updLayer [simp]: "stepFrame j a (updLayer j f t) = stepFrame j a t"
  by (simp add: stepFrame_def updLayer_def)

lemma stepFrame_getAnimatorLayerData [simp]:
  "stepFrame j a (getAnimatorLayerData X j t) = stepFrame j a t"
  by (simp add: stepFrame_def getAnimatorLayerData_def)

lemma stepFrame_updTransition [simp]:
  "stepFrame j a (updTransition r f t) = stepFrame j a t"
  by (cases r) (auto simp: stepFrame_def updTransition_def split: option.splits)

lemma stepFrame_layerAt: "stepFrame j a a' \<Longrightarrow> k \<noteq> j \<Longrightarrow> layerAt X a' k = layerAt X a k"
  by (simp add: stepFrame_def layerAt_def)

lemma getCrossFadeValue_apply_keeps:
  "bindR (getCrossFadeValue X ty pr sv dv cw) (\<lambda>v. applyClipValue X tg ty2 pr2 dfl v w t) = Inr t'
   \<Longrightarrow> keepsPlayback t t'"
  by (auto dest!: bindR_Inr dest: applyClipValue_keeps)

lemma forDown_keeps:
  assumes "forDown xs f s = Inr s'"
    and "\<And>i x t t'. f i x t = Inr t' \<Longrightarrow> keepsPlayback t t'"
  shows "keepsPlayback s s'"
  using assms(1)
  by (rule forDown_invariant [where P = "keepsPlayback s"])
     (auto dest: assms(2) intro: keepsPlayback_trans)

lemma additive_step_keeps:
  "bindR (calculateDiff X vt pr sv dv t)
     (\<lambda>b. updateAdditiveLayerValue X tg ty pr2 (diffValueFromBasePose b) w b) = Inr t'
   \<Longrightarrow> keepsPlayback t t'"
  by (auto dest!: bindR_Inr dest: calculateDiff_keeps updateAdditiveLayerValue_keeps
      intro: keepsPlayback_trans)

lemma playCurve_keeps:
  "playCurve X isFirst w mode ft sd j c t = Inr t' \<Longrightarrow> keepsPlayback t t'"
  by (auto simp: playCurve_def split: option.splits list.splits if_splits
        dest!: withOwner_Inr dest: applyClipValue_keeps additive_step_keeps)

lemma updatePlayingState_keeps:
  assumes "updatePlayingState X i isFirst w mode a = Inr a'"
  shows "keepsPlayback
           (updLayer i (updPlayData (srcPlayData (layerAt X a i))
                          (\<lambda>p. p\<lparr>playState := Some PlayState.Playing\<rparr>)) a) a'"
  using assms unfolding updatePlayingState_def Let_def
  by (auto split: option.splits elim!: forDown_keeps dest: playCurve_keeps)

lemma poseCurve_keeps:
  "poseCurve X nc ft cw w j item t = Inr t' \<Longrightarrow> keepsPlayback t t'"
  by (auto simp: poseCurve_def split: option.splits if_splits
        dest!: withOwner_Inr bindR_Inr dest: applyClipValue_keeps)

lemma crossCurve_keeps:
  "crossCurve X cc nc ssd dsd cft ft cw w j item t = Inr t' \<Longrightarrow> keepsPlayback t t'"
  by (auto simp: crossCurve_def split: option.splits if_splits
        dest!: withOwner_Inr bindR_Inr dest: applyClipValue_keeps)

lemma updateCrossFadeFromPose_unfold:
  assumes "updateCrossFadeFromPose X i w dt a = Inr a'"
  shows "\<exists>ds b. state (destRecord X a i) = Some ds
     \<and> keepsPlayback
          (if crossDone (advanced dt (transitionForPose a))
           then updLayer i (updPlayData (destPlayData (layerAt X a i))
                              (\<lambda>p. p\<lparr>playState := Some PlayState.Playing\<rparr>))
                  (updTransition ForPose (advanced dt) a)
           else updTransition ForPose (advanced dt) a) b
     \<and> a' = finishCrossFadeFromPose X i (destPlayData (layerAt X a i))
              (crossFrameTime (advanced dt (transitionForPose a)) (states a ds)) b"
proof (cases "crossDone (advanced dt (transitionForPose a))")
  case True
  with assms show ?thesis
    unfolding updateCrossFadeFromPose_def Let_def destRecord_def
    apply (clarsimp split: option.splits dest!: bindR_Inr simp: updTransition_def)
    apply (rule exI, rule conjI [OF _ refl], erule forDown_keeps, erule poseCurve_keeps)
    done
next
  case False
  with assms show ?thesis
    unfolding updateCrossFadeFromPose_def Let_def destRecord_def
    apply (clarsimp split: option.splits dest!: bindR_Inr simp: updTransition_def)
    apply (rule exI, rule conjI [OF _ refl], erule forDown_keeps, erule poseCurve_keeps)
    done
qed

lemma layerState_updLayer_same:
  "(\<And>d. layerState (f d) = layerState d) \<Longrightarrow>
   layerState (layerAt X (updLayer i f a) k) = layerState (layerAt X a k)"
  by (simp add: layerAt_def updLayer_def split: option.splits)

lemma layerAt_updTransition [simp]: "layerAt X (updTransition r f a) k = layerAt X a k"
  by (cases r) (simp_all add: layerAt_def updTransition_def split: option.splits)

lemma finishCrossFadeFromPose_layerState [simp]:
  "layerState (layerAt X (finishCrossFadeFromPose X i dst ft b) k) = layerState (layerAt X b k)"
  by (simp add: finishCrossFadeFromPose_def layerState_updLayer_same updPlayData_def)

lemma stepFrame_finishCrossFadeFromPose [simp]:
  "stepFrame i a (finishCrossFadeFromPose X i dst ft b) = stepFrame i a b"
  by (simp add: finishCrossFadeFromPose_def)

lemma stepFrame_finishCrossFade [simp]:
  "stepFrame i a (finishCrossFade X i src dst ft b) = stepFrame i a b"
  by (simp add: finishCrossFade_def)

lemma updateCrossFadeFromPose_layerState:
  assumes "updateCrossFadeFromPose X i w dt a = Inr a'"
  shows "layerState (layerAt X a' i) = layerState (layerAt X a i)"
proof -
  from updateCrossFadeFromPose_unfold [OF assms] obtain ds b where
    b: "keepsPlayback
          (if crossDone (advanced dt (transitionForPose a))
           then updLayer i (updPlayData (destPlayData (layerAt X a i))
                              (\<lambda>p. p\<lparr>playState := Some PlayState.Playing\<rparr>))
                  (updTransition ForPose (advanced dt) a)
           else updTransition ForPose (advanced dt) a) b"
    and a': "a' = finishCrossFadeFromPose X i (destPlayData (layerAt X a i))
              (crossFrameTime (advanced dt (transitionForPose a)) (states a ds)) b"
    by blast
  from layerAt_keeps [OF b, of X i] show ?thesis
    unfolding a'
    by (simp add: layerState_updLayer_same updPlayData_def split: if_splits)
qed

lemma updateCrossFadeFromPose_stepFrame:
  assumes "updateCrossFadeFromPose X i w dt a = Inr a'"
  shows "stepFrame i a a'"
proof -
  from updateCrossFadeFromPose_unfold [OF assms] obtain ds b where
    b: "keepsPlayback
          (if crossDone (advanced dt (transitionForPose a))
           then updLayer i (updPlayData (destPlayData (layerAt X a i))
                              (\<lambda>p. p\<lparr>playState := Some PlayState.Playing\<rparr>))
                  (updTransition ForPose (advanced dt) a)
           else updTransition ForPose (advanced dt) a) b"
    and a': "a' = finishCrossFadeFromPose X i (destPlayData (layerAt X a i))
              (crossFrameTime (advanced dt (transitionForPose a)) (states a ds)) b"
    by blast
  have "stepFrame i a
          (if crossDone (advanced dt (transitionForPose a))
           then updLayer i (updPlayData (destPlayData (layerAt X a i))
                              (\<lambda>p. p\<lparr>playState := Some PlayState.Playing\<rparr>))
                  (updTransition ForPose (advanced dt) a)
           else updTransition ForPose (advanced dt) a)"
    by simp
  then have "stepFrame i a b"
    using keepsPlayback_stepFrame [OF b] by (rule stepFrame_trans)
  then show ?thesis
    unfolding a' by simp
qed

lemma bindR_forDown_keeps:
  assumes "bindR (forDown xs f s) (\<lambda>s3. Inr (g s3)) = Inr s'"
    and "\<And>i x t t'. f i x t = Inr t' \<Longrightarrow> keepsPlayback t t'"
  shows "\<exists>b. keepsPlayback s b \<and> s' = g b"
proof -
  from assms(1) obtain b where b: "forDown xs f s = Inr b" and s': "s' = g b"
    by (auto dest!: bindR_Inr)
  from b have "keepsPlayback s b"
    by (rule forDown_keeps) (rule assms(2))
  with s' show ?thesis
    by blast
qed

lemma updateCrossFade_unfold:
  assumes "updateCrossFade X i r w dt a = Inr a'"
  shows "\<exists>ds t b. state (destRecord X a i) = Some ds
     \<and> getTransition r (updTransition r (advanced dt) a) = Some t
     \<and> keepsPlayback
          (if crossDone t
           then updLayer i (updPlayData (srcPlayData (layerAt X a i))
                              (\<lambda>p. p\<lparr>playState := Some Finished\<rparr>))
                  (updTransition r (advanced dt) a)
           else updTransition r (advanced dt) a) b
     \<and> a' = finishCrossFade X i (srcPlayData (layerAt X a i)) (destPlayData (layerAt X a i))
              (crossFrameTime t (states (updTransition r (advanced dt) a) ds)) b"
  using assms unfolding updateCrossFade_def Let_def destRecord_def
  apply (clarsimp split: option.splits split del: if_split)
  apply (drule bindR_forDown_keeps)
   apply (erule crossCurve_keeps)
  apply assumption
  done

lemma updateCrossFade_stepFrame:
  assumes "updateCrossFade X i r w dt a = Inr a'"
  shows "stepFrame i a a'"
proof -
  let ?a1 = "updTransition r (advanced dt) a"
  let ?src = "srcPlayData (layerAt X a i)"
  from updateCrossFade_unfold [OF assms] obtain t b dst ft where
    b: "keepsPlayback
          (if crossDone t
           then updLayer i (updPlayData ?src (\<lambda>p. p\<lparr>playState := Some Finished\<rparr>)) ?a1
           else ?a1) b"
    and a': "a' = finishCrossFade X i ?src dst ft b"
    by blast
  have "stepFrame i a
          (if crossDone t
           then updLayer i (updPlayData ?src (\<lambda>p. p\<lparr>playState := Some Finished\<rparr>)) ?a1
           else ?a1)"
    by simp
  then have "stepFrame i a b"
    using keepsPlayback_stepFrame [OF b] by (rule stepFrame_trans)
  then show ?thesis
    unfolding a' by simp
qed

lemma updateLayer_stepFrame:
  assumes "updateLayer X i isFirst dt l a = Inr a'"
  shows "stepFrame i a a'"
proof (cases "layerState (layerAt X a i)")
  case Standby
  with assms show ?thesis by (simp add: updateLayer_def)
next
  case Playing
  with assms have "updatePlayingState X i isFirst (weight l) (blendingMode l) a = Inr a'"
    by (simp add: updateLayer_def)
  from keepsPlayback_stepFrame [OF updatePlayingState_keeps [OF this], of i]
  show ?thesis
    by (auto elim: stepFrame_trans [rotated])
next
  case CrossFading
  with assms show ?thesis
    by (auto simp: updateLayer_def split: option.splits list.splits
        dest: updateCrossFade_stepFrame)
next
  case FixedCrossFading
  with assms show ?thesis
    by (auto simp: updateLayer_def dest: updateCrossFadeFromPose_stepFrame)
qed

lemma updateStep_stepFrame:
  assumes "updateStep X dt (i, l) a = Inr a'"
  shows "stepFrame i a a'"
proof -
  let ?a1 = "getAnimatorLayerData X i a"
  show ?thesis
  proof (cases "layerState (layerAt X a i) = Standby")
    case True
    with assms show ?thesis by (auto simp: updateStep_def Let_def)
  next
    case False
    with assms obtain p where
      "updateLayer X i (i = 0) dt l
         (updLayer i (updPlayData (srcPlayData (layerAt X a i)) (\<lambda>q. p)) ?a1) = Inr a'"
      by (auto simp: updateStep_def Let_def dest!: bindR_Inr)
    from updateLayer_stepFrame [OF this] show ?thesis
      by (auto elim: stepFrame_trans [rotated])
  qed
qed

lemma updateStep_keeps_fixed:
  assumes run: "updateStep X dt (j, l) a = Inr a'"
    and fixed: "layerState (layerAt X a k) = FixedCrossFading"
  shows "layerState (layerAt X a' k) = FixedCrossFading"
proof (cases "k = j")
  case False
  from stepFrame_layerAt [OF updateStep_stepFrame [OF run] False] fixed
  show ?thesis by simp
next
  case True
  let ?a1 = "getAnimatorLayerData X j a"
  let ?src = "srcPlayData (layerAt X a j)"
  from run fixed True obtain p where
    step: "updateLayer X j (j = 0) dt l (updLayer j (updPlayData ?src (\<lambda>q. p)) ?a1) = Inr a'"
    by (auto simp: updateStep_def Let_def dest!: bindR_Inr)
  have ls: "layerState (layerAt X (updLayer j (updPlayData ?src (\<lambda>q. p)) ?a1) j)
              = FixedCrossFading"
    using fixed True by (simp add: layerState_updLayer_same updPlayData_def)
  with step have
    "updateCrossFadeFromPose X j (weight l) dt (updLayer j (updPlayData ?src (\<lambda>q. p)) ?a1)
       = Inr a'"
    by (simp add: updateLayer_def)
  from updateCrossFadeFromPose_layerState [OF this] ls True show ?thesis
    by simp
qed

lemma update_keeps_fixed:
  assumes run: "update X dt a = Inr a'"
    and fixed: "layerState (layerAt X a k) = FixedCrossFading"
  shows "layerState (layerAt X a' k) = FixedCrossFading"
proof (cases "speed a = 0 \<or> animatorController a = None")
  case True
  with run have "a' = a"
    by (auto simp: update_def split: if_splits)
  with fixed show ?thesis
    by simp
next
  case False
  then obtain layers where
    "runAll (enumerate 0 layers) (updateStep X (dt * speed a)) a = Inr a'"
    using run by (auto simp: update_def)
  then show ?thesis
    using fixed
  proof (rule runAll_invariant [where P = "\<lambda>b. layerState (layerAt X b k) = FixedCrossFading"])
    fix x t t'
    assume "layerState (layerAt X t k) = FixedCrossFading"
      and "updateStep X (dt * speed a) x t = Inr t'"
    then show "layerState (layerAt X t' k) = FixedCrossFading"
      by (cases x) (auto dest: updateStep_keeps_fixed)
  qed
qed

lemma fixed_promotion:
  assumes layer: "animatorLayersData a i = Some d"
    and run: "updateCrossFadeFromPose X i w dt a = Inr b"
    and reached: "crossDone (advanced dt (transitionForPose a))"
  shows "srcPlayData (layerAt X b i) = destPlayData d"
    and "destPlayData (layerAt X b i) = destPlayData d"
    and "playState (srcRecord X b i) = Some PlayState.Playing"
    and "\<exists>ds. state (playData d (destPlayData d)) = Some ds
           \<and> frameTime (srcRecord X b i)
               = crossFrameTime (advanced dt (transitionForPose a)) (states a ds)"
proof -
  have d: "layerAt X a i = d"
    using layer by (simp add: layerAt_def)
  let ?dst = "destPlayData d"
  let ?m = "updLayer i (updPlayData ?dst (\<lambda>p. p\<lparr>playState := Some PlayState.Playing\<rparr>))
              (updTransition ForPose (advanced dt) a)"
  from updateCrossFadeFromPose_unfold [OF run] reached d obtain ds c where
    ds: "state (playData d ?dst) = Some ds"
    and c: "keepsPlayback ?m c"
    and b: "b = finishCrossFadeFromPose X i ?dst
              (crossFrameTime (advanced dt (transitionForPose a)) (states a ds)) c"
    by (auto simp: destRecord_def)
  have lm: "animatorLayersData ?m i
     = Some (updPlayData ?dst (\<lambda>p. p\<lparr>playState := Some PlayState.Playing\<rparr>) d)"
    using layer by (cases "transitionForPose a") (simp add: updLayer_def updTransition_def)
  with c have lc: "animatorLayersData c i
     = Some (updPlayData ?dst (\<lambda>p. p\<lparr>playState := Some PlayState.Playing\<rparr>) d)"
    by (simp add: keepsPlayback_def)
  then have lb: "layerAt X b i
     = (updPlayData ?dst
          (\<lambda>p. p\<lparr>frameTime := crossFrameTime (advanced dt (transitionForPose a)) (states a ds)\<rparr>)
          (updPlayData ?dst (\<lambda>p. p\<lparr>playState := Some PlayState.Playing\<rparr>) d))
        \<lparr>srcPlayData := ?dst\<rparr>"
    unfolding b
    by (simp add: finishCrossFadeFromPose_def layerAt_def updLayer_def updPlayData_def)
  show "srcPlayData (layerAt X b i) = destPlayData d"
    and "destPlayData (layerAt X b i) = destPlayData d"
    and "playState (srcRecord X b i) = Some PlayState.Playing"
    and "\<exists>ds. state (playData d (destPlayData d)) = Some ds
           \<and> frameTime (srcRecord X b i)
               = crossFrameTime (advanced dt (transitionForPose a)) (states a ds)"
    using ds by (simp_all add: lb srcRecord_def updPlayData_def)
qed



text \<open>
  What the steps for the other layers keep of layer \<open>i\<close> and of the states.
\<close>

lemma other_steps_keep:
  assumes run: "runAll xs (updateStep X d) a = Inr b"
    and others: "\<And>x. x \<in> set xs \<Longrightarrow> fst x \<noteq> i"
  shows "animatorLayersData b i = animatorLayersData a i
    \<and> (\<forall>s. clipEndTime (states b s) = clipEndTime (states a s)
           \<and> wrapMode (states b s) = wrapMode (states a s))"
  using run
proof (rule runAll_invariant [where P = "\<lambda>b. animatorLayersData b i = animatorLayersData a i
    \<and> (\<forall>s. clipEndTime (states b s) = clipEndTime (states a s)
           \<and> wrapMode (states b s) = wrapMode (states a s))"])
  show "animatorLayersData a i = animatorLayersData a i
    \<and> (\<forall>s. clipEndTime (states a s) = clipEndTime (states a s)
           \<and> wrapMode (states a s) = wrapMode (states a s))"
    by simp
next
  fix x t t'
  assume x: "x \<in> set xs"
    and t: "animatorLayersData t i = animatorLayersData a i
    \<and> (\<forall>s. clipEndTime (states t s) = clipEndTime (states a s)
           \<and> wrapMode (states t s) = wrapMode (states a s))"
    and step: "updateStep X d x t = Inr t'"
  from step have "stepFrame (fst x) t t'"
    by (cases x) (auto dest: updateStep_stepFrame)
  with others [OF x] t
  show "animatorLayersData t' i = animatorLayersData a i
    \<and> (\<forall>s. clipEndTime (states t' s) = clipEndTime (states a s)
           \<and> wrapMode (states t' s) = wrapMode (states a s))"
    by (simp add: stepFrame_def)
qed

lemma enumerate_split:
  assumes "i < length xs"
  shows "enumerate 0 xs
    = enumerate 0 (take i xs) @ (i, xs ! i) # enumerate (Suc i) (drop (Suc i) xs)"
proof -
  have "enumerate 0 xs = enumerate 0 (take i xs @ xs ! i # drop (Suc i) xs)"
    using assms by (simp add: id_take_nth_drop [symmetric])
  also have "\<dots> = enumerate 0 (take i xs) @ (i, xs ! i) # enumerate (Suc i) (drop (Suc i) xs)"
    using assms by (simp add: enumerate_append_eq)
  finally show ?thesis .
qed


lemma getTransition_updTransition:
  "getTransition r a = Some t \<Longrightarrow> getTransition r (updTransition r f a) = Some (f t)"
  by (cases r) (auto simp: getTransition_def updTransition_def nth_opt_def split: if_splits)

text \<open>
  When \<open>_updateCrossFade\<close> runs on a transition of positive duration, returns, and the
  elapsed time of the transition reaches the duration, the cross-fade completes: the weight
  is 1, the layer is \<open>Playing\<close> and the destination record is the source.
\<close>

lemma cross_fade_completes:
  assumes layer: "animatorLayersData a i = Some d"
    and run: "updateCrossFade X i r w dt a = Inr b"
    and tr: "getTransition r a = Some t"
    and pos: "0 < duration t"
    and reached: "duration t \<le> crossFadeFrameTime t + dt / 1000"
  shows "crossWeightOf (advanced dt t) = Num 1"
    and "layerState (layerAt X b i) = LayerState.Playing"
    and "srcPlayData (layerAt X b i) = destPlayData d"
proof -
  have d: "layerAt X a i = d"
    using layer by (simp add: layerAt_def)
  have fin: "crossDone (advanced dt t)"
    using pos reached by (simp add: crossDone_def advanced_def pos_le_divide_eq)
  then show "crossWeightOf (advanced dt t) = Num 1"
    by (simp add: crossDone_def crossWeightOf_def)
  let ?src = "srcPlayData d" and ?dst = "destPlayData d"
  let ?m = "updLayer i (updPlayData ?src (\<lambda>p. p\<lparr>playState := Some Finished\<rparr>))
              (updTransition r (advanced dt) a)"
  from updateCrossFade_unfold [OF run] getTransition_updTransition [OF tr] fin d
  obtain ft c where
    c: "keepsPlayback ?m c"
    and b: "b = finishCrossFade X i ?src ?dst ft c"
    by auto
  have "animatorLayersData ?m i
     = Some (updPlayData ?src (\<lambda>p. p\<lparr>playState := Some Finished\<rparr>) d)"
    using layer by (cases r) (auto simp: updLayer_def updTransition_def split: option.splits)
  with c have "animatorLayersData c i
     = Some (updPlayData ?src (\<lambda>p. p\<lparr>playState := Some Finished\<rparr>) d)"
    by (simp add: keepsPlayback_def)
  then have "layerAt X b i
     = (updPlayData ?dst (\<lambda>p. p\<lparr>frameTime := ft\<rparr>)
          (updPlayData ?src (\<lambda>p. p\<lparr>playState := Some Finished\<rparr>) d))
        \<lparr>srcPlayData := ?dst, layerState := LayerState.Playing\<rparr>"
    unfolding b by (simp add: finishCrossFade_def layerAt_def updLayer_def updPlayData_def)
  then show "layerState (layerAt X b i) = LayerState.Playing"
    and "srcPlayData (layerAt X b i) = destPlayData d"
    by simp_all
qed

text \<open>
  What one step of \<open>update\<close> does to the pose transition and to the transitions of the
  states, and so what the steps before layer \<open>i\<close> have done to them.
\<close>

lemma advanceSrc_fields:
  "advanceSrc d sts p = Inr p' \<Longrightarrow> state p' = state p \<and> stateData p' = stateData p"
  by (auto simp: advanceSrc_def Let_def split: if_splits option.splits)

lemma updateStep_active:
  assumes "updateStep X d (j, l) b = Inr b'"
    and "layerState (layerAt X b j) \<noteq> Standby"
  shows "\<exists>p. advanceSrc d (states b) (srcRecord X b j) = Inr p
     \<and> updateLayer X j (j = 0) d l
         (updLayer j (updPlayData (srcPlayData (layerAt X b j)) (\<lambda>q. p))
            (getAnimatorLayerData X j b)) = Inr b'"
  using assms by (auto simp: updateStep_def Let_def srcRecord_def dest!: bindR_Inr)

lemma layerAt_advanced:
  "layerAt X (updLayer j f (getAnimatorLayerData X j b)) k
     = (if k = j then f (layerAt X b j) else layerAt X b k)"
  by (simp add: layerAt_updLayer)

lemma updateStep_transitions:
  assumes step: "updateStep X d (j, l) b = Inr b'"
  shows "transitionForPose b'
      = (if layerState (layerAt X b j) = FixedCrossFading
         then advanced d (transitionForPose b) else transitionForPose b)"
    and "transitions (states b' s)
      = (if layerState (layerAt X b j) = CrossFading \<and> state (srcRecord X b j) = Some s
         then (case transitions (states b s) of [] \<Rightarrow> [] | t # ts \<Rightarrow> advanced d t # ts)
         else transitions (states b s))"
proof -
  let ?P = "transitionForPose b'
      = (if layerState (layerAt X b j) = FixedCrossFading
         then advanced d (transitionForPose b) else transitionForPose b)
    \<and> transitions (states b' s)
      = (if layerState (layerAt X b j) = CrossFading \<and> state (srcRecord X b j) = Some s
         then (case transitions (states b s) of [] \<Rightarrow> [] | t # ts \<Rightarrow> advanced d t # ts)
         else transitions (states b s))"
  have ?P
  proof (cases "layerState (layerAt X b j)")
    case Standby
    with step show ?thesis
      by (auto simp: updateStep_def Let_def)
  next
    case Playing
    with updateStep_active [OF step] obtain p where
      run: "updateLayer X j (j = 0) d l
         (updLayer j (updPlayData (srcPlayData (layerAt X b j)) (\<lambda>q. p))
            (getAnimatorLayerData X j b)) = Inr b'"
      by auto
    let ?m = "updLayer j (updPlayData (srcPlayData (layerAt X b j)) (\<lambda>q. p))
            (getAnimatorLayerData X j b)"
    have "layerState (layerAt X ?m j) = LayerState.Playing"
      using Playing by (simp add: layerAt_advanced updPlayData_def)
    with run have "updatePlayingState X j (j = 0) (weight l) (blendingMode l) ?m = Inr b'"
      by (simp add: updateLayer_def)
    from updatePlayingState_keeps [OF this] Playing show ?thesis
      by (simp add: keepsPlayback_def)
  next
    case FixedCrossFading
    with updateStep_active [OF step] obtain p where
      run: "updateLayer X j (j = 0) d l
         (updLayer j (updPlayData (srcPlayData (layerAt X b j)) (\<lambda>q. p))
            (getAnimatorLayerData X j b)) = Inr b'"
      by auto
    let ?m = "updLayer j (updPlayData (srcPlayData (layerAt X b j)) (\<lambda>q. p))
            (getAnimatorLayerData X j b)"
    have "layerState (layerAt X ?m j) = FixedCrossFading"
      using FixedCrossFading by (simp add: layerAt_advanced updPlayData_def)
    with run have "updateCrossFadeFromPose X j (weight l) d ?m = Inr b'"
      by (simp add: updateLayer_def)
    from updateCrossFadeFromPose_unfold [OF this] obtain ft c dst where
      c: "keepsPlayback
          (if crossDone (advanced d (transitionForPose ?m))
           then updLayer j (updPlayData (destPlayData (layerAt X ?m j))
                              (\<lambda>p. p\<lparr>playState := Some PlayState.Playing\<rparr>))
                  (updTransition ForPose (advanced d) ?m)
           else updTransition ForPose (advanced d) ?m) c"
      and b': "b' = finishCrossFadeFromPose X j dst ft c"
      by blast
    from c have "transitionForPose c = advanced d (transitionForPose b)
        \<and> states c = states b"
      by (simp add: keepsPlayback_def updTransition_def split: if_splits)
    with FixedCrossFading show ?thesis
      unfolding b' by (simp add: finishCrossFadeFromPose_def)
  next
    case CrossFading
    with updateStep_active [OF step] obtain p where
      adv: "advanceSrc d (states b) (srcRecord X b j) = Inr p"
      and run: "updateLayer X j (j = 0) d l
         (updLayer j (updPlayData (srcPlayData (layerAt X b j)) (\<lambda>q. p))
            (getAnimatorLayerData X j b)) = Inr b'"
      by auto
    let ?m = "updLayer j (updPlayData (srcPlayData (layerAt X b j)) (\<lambda>q. p))
            (getAnimatorLayerData X j b)"
    have lm: "layerAt X ?m j = updPlayData (srcPlayData (layerAt X b j)) (\<lambda>q. p) (layerAt X b j)"
      by (simp add: layerAt_advanced)
    have ls: "layerState (layerAt X ?m j) = CrossFading"
      using CrossFading by (simp add: lm updPlayData_def)
    have st: "state (playData (layerAt X ?m j) (srcPlayData (layerAt X ?m j)))
                = state (srcRecord X b j)"
      using advanceSrc_fields [OF adv] by (simp add: lm updPlayData_def)
    show ?thesis
    proof (cases "state (srcRecord X b j)")
      case None
      with run ls st show ?thesis
        by (simp add: updateLayer_def)
    next
      case (Some s')
      show ?thesis
      proof (cases "transitions (states b s')")
        case Nil
        with run ls st Some CrossFading have "b' = ?m"
          by (simp add: updateLayer_def)
        with CrossFading Some Nil show ?thesis
          by auto
      next
        case (Cons t ts)
        with run ls st Some have "updateCrossFade X j (OfState s' 0) (weight l) d ?m = Inr b'"
          by (simp add: updateLayer_def)
        from updateCrossFade_unfold [OF this] obtain t' c src dst ft where
          c: "keepsPlayback
            (if crossDone t'
             then updLayer j (updPlayData (srcPlayData (layerAt X ?m j))
                              (\<lambda>p. p\<lparr>playState := Some Finished\<rparr>))
                  (updTransition (OfState s' 0) (advanced d) ?m)
             else updTransition (OfState s' 0) (advanced d) ?m) c"
          and b': "b' = finishCrossFade X j src dst ft c"
          by blast
        from c have "transitionForPose c = transitionForPose b
          \<and> states c = states (updTransition (OfState s' 0) (advanced d) ?m)"
          by (simp add: keepsPlayback_def updTransition_def split: if_splits option.splits)
        with CrossFading Some Cons show ?thesis
          unfolding b'
          by (auto simp: finishCrossFade_def updTransition_def nth_opt_def)
      qed
    qed
  qed
  then show "transitionForPose b'
      = (if layerState (layerAt X b j) = FixedCrossFading
         then advanced d (transitionForPose b) else transitionForPose b)"
    and "transitions (states b' s)
      = (if layerState (layerAt X b j) = CrossFading \<and> state (srcRecord X b j) = Some s
         then (case transitions (states b s) of [] \<Rightarrow> [] | t # ts \<Rightarrow> advanced d t # ts)
         else transitions (states b s))"
    by simp_all
qed

lemma fixedBefore_Suc:
  "fixedBefore X a (Suc n)
     = (if layerState (layerAt X a n) = FixedCrossFading
        then Suc (fixedBefore X a n) else fixedBefore X a n)"
  by (simp add: fixedBefore_def)

lemma fadingBefore_Suc:
  "fadingBefore X a s (Suc n)
     = (if layerState (layerAt X a n) = CrossFading \<and> state (srcRecord X a n) = Some s
        then Suc (fadingBefore X a s n) else fadingBefore X a s n)"
  by (simp add: fadingBefore_def)

lemma steps_before:
  assumes "n \<le> length layers"
    and "runAll (enumerate 0 (take n layers)) (updateStep X d) a = Inr b"
  shows "transitionForPose b = (advanced d ^^ fixedBefore X a n) (transitionForPose a)
    \<and> (\<forall>s. transitions (states b s)
           = (case transitions (states a s) of
                [] \<Rightarrow> []
              | t # ts \<Rightarrow> (advanced d ^^ fadingBefore X a s n) t # ts))"
  using assms
proof (induction n arbitrary: b)
  case 0
  then show ?case
    by (simp add: fixedBefore_def fadingBefore_def split: list.splits)
next
  case (Suc n)
  from Suc.prems(1) have n: "n < length layers"
    by simp
  have "enumerate 0 (take (Suc n) layers) = enumerate 0 (take n layers) @ [(n, layers ! n)]"
    using n by (simp add: take_Suc_conv_app_nth enumerate_append_eq)
  with Suc.prems(2) have
    "bindR (runAll (enumerate 0 (take n layers)) (updateStep X d) a)
       (runAll [(n, layers ! n)] (updateStep X d)) = Inr b"
    by (simp only: runAll_append)
  then obtain b0 where pre: "runAll (enumerate 0 (take n layers)) (updateStep X d) a = Inr b0"
    and step: "updateStep X d (n, layers ! n) b0 = Inr b"
    by (auto dest!: bindR_Inr)
  from n have ih: "transitionForPose b0 = (advanced d ^^ fixedBefore X a n) (transitionForPose a)
    \<and> (\<forall>s. transitions (states b0 s)
           = (case transitions (states a s) of
                [] \<Rightarrow> []
              | t # ts \<Rightarrow> (advanced d ^^ fadingBefore X a s n) t # ts))"
    by (intro Suc.IH [OF _ pre]) simp
  have "animatorLayersData b0 n = animatorLayersData a n"
    using other_steps_keep [OF pre, of n] n by (auto simp: in_set_enumerate_eq)
  then have same: "layerAt X b0 n = layerAt X a n" "srcRecord X b0 n = srcRecord X a n"
    by (simp_all add: layerAt_def srcRecord_def)
  show ?case
    using updateStep_transitions [OF step] ih same
    by (auto simp: fixedBefore_Suc fadingBefore_Suc split: list.splits)
qed

lemma split_at_layer:
  assumes run: "runAll (enumerate 0 layers) (updateStep X d) a = Inr a'"
    and i: "i < length layers"
  shows "\<exists>b b'. runAll (enumerate 0 (take i layers)) (updateStep X d) a = Inr b
     \<and> updateStep X d (i, layers ! i) b = Inr b'
     \<and> animatorLayersData b i = animatorLayersData a i
     \<and> animatorLayersData a' i = animatorLayersData b' i
     \<and> (\<forall>s. clipEndTime (states b s) = clipEndTime (states a s)
            \<and> wrapMode (states b s) = wrapMode (states a s))"
proof -
  let ?f = "updateStep X d"
  let ?pre = "enumerate 0 (take i layers)"
  let ?post = "enumerate (Suc i) (drop (Suc i) layers)"
  from run have "bindR (runAll ?pre ?f a) (runAll ((i, layers ! i) # ?post) ?f) = Inr a'"
    by (simp only: enumerate_split [OF i] runAll_append)
  then obtain b where b: "runAll ?pre ?f a = Inr b"
    and "runAll ((i, layers ! i) # ?post) ?f b = Inr a'"
    by (blast dest: bindR_Inr)
  then obtain b' where step: "?f (i, layers ! i) b = Inr b'" and rest: "runAll ?post ?f b' = Inr a'"
    by (auto dest: bindR_Inr)
  have before: "animatorLayersData b i = animatorLayersData a i
    \<and> (\<forall>s. clipEndTime (states b s) = clipEndTime (states a s)
           \<and> wrapMode (states b s) = wrapMode (states a s))"
    using b by (rule other_steps_keep) (auto simp: in_set_enumerate_eq)
  moreover have "animatorLayersData a' i = animatorLayersData b' i"
    using other_steps_keep [OF rest, of i] by (auto simp: in_set_enumerate_eq)
  ultimately show ?thesis
    using b step by blast
qed

lemma crossFrameTime_cong:
  "clipEndTime st' = clipEndTime st \<Longrightarrow> wrapMode st' = wrapMode st
   \<Longrightarrow> crossFrameTime t st' = crossFrameTime t st"
  by (simp add: crossFrameTime_def)

text \<open>
  The step of \<open>update\<close> for a layer that is \<open>FixedCrossFading\<close>, when the pose transition
  is done after this step's advance.
\<close>

lemma fixed_step_promotes:
  assumes step: "updateStep X d (i, l) b = Inr b'"
    and fixed: "layerState (layerAt X b i) = FixedCrossFading"
    and reached: "crossDone (advanced d (transitionForPose b))"
  shows "\<exists>ds. state (destRecord X b i) = Some ds
     \<and> layerState (layerAt X b' i) = FixedCrossFading
     \<and> srcPlayData (layerAt X b' i) = destPlayData (layerAt X b i)
     \<and> destPlayData (layerAt X b' i) = destPlayData (layerAt X b i)
     \<and> playState (srcRecord X b' i) = Some PlayState.Playing
     \<and> state (srcRecord X b' i) = Some ds
     \<and> frameTime (srcRecord X b' i)
         = crossFrameTime (advanced d (transitionForPose b)) (states b ds)"
proof -
  from fixed updateStep_active [OF step] obtain p where
    adv: "advanceSrc d (states b) (srcRecord X b i) = Inr p"
    and run: "updateLayer X i (i = 0) d l
         (updLayer i (updPlayData (srcPlayData (layerAt X b i)) (\<lambda>q. p))
            (getAnimatorLayerData X i b)) = Inr b'"
    by auto
  let ?src = "srcPlayData (layerAt X b i)"
  let ?dst = "destPlayData (layerAt X b i)"
  let ?m = "updLayer i (updPlayData ?src (\<lambda>q. p)) (getAnimatorLayerData X i b)"
  let ?d = "updPlayData ?src (\<lambda>q. p) (layerAt X b i)"
  have lm: "animatorLayersData ?m i = Some ?d"
    by (simp add: updLayer_layers)
  have "layerState (layerAt X ?m i) = FixedCrossFading"
    using fixed by (simp add: layerAt_advanced updPlayData_def)
  with run have pose: "updateCrossFadeFromPose X i (weight l) d ?m = Inr b'"
    by (simp add: updateLayer_def)
  have reached': "crossDone (advanced d (transitionForPose ?m))"
    using reached by simp
  have dd: "destPlayData ?d = ?dst"
    by (simp add: updPlayData_def)
  have sd: "state (playData ?d ?dst) = state (destRecord X b i)"
    using advanceSrc_fields [OF adv]
    by (simp add: updPlayData_def destRecord_def srcRecord_def)
  from fixed_promotion [OF lm pose reached'] obtain ds where
    1: "srcPlayData (layerAt X b' i) = ?dst"
    and 2: "destPlayData (layerAt X b' i) = ?dst"
    and 3: "playState (srcRecord X b' i) = Some PlayState.Playing"
    and 4: "state (destRecord X b i) = Some ds"
    and 5: "frameTime (srcRecord X b' i)
               = crossFrameTime (advanced d (transitionForPose b)) (states b ds)"
    by (auto simp: dd sd)
  from updateCrossFadeFromPose_unfold [OF pose] reached' obtain c ft where
    c: "keepsPlayback
          (updLayer i (updPlayData (destPlayData (layerAt X ?m i))
                              (\<lambda>p. p\<lparr>playState := Some PlayState.Playing\<rparr>))
                  (updTransition ForPose (advanced d) ?m)) c"
    and b': "b' = finishCrossFadeFromPose X i (destPlayData (layerAt X ?m i)) ft c"
    by auto
  have lc: "animatorLayersData c i
     = Some (updPlayData ?dst (\<lambda>p. p\<lparr>playState := Some PlayState.Playing\<rparr>) ?d)"
    using c by (simp add: keepsPlayback_def updLayer_layers updTransition_def layerAt_advanced dd)
  have 6: "layerState (layerAt X b' i) = FixedCrossFading"
    using updateCrossFadeFromPose_layerState [OF pose] fixed
    by (simp add: layerAt_advanced updPlayData_def)
  have 7: "state (srcRecord X b' i) = Some ds"
    unfolding b' using lc sd 4
    by (simp add: finishCrossFadeFromPose_def srcRecord_def layerAt_def updLayer_layers
        updPlayData_def dd layerAt_advanced)
  from 1 2 3 4 5 6 7 show ?thesis
    by blast
qed


lemma layers_updTransition [simp]:
  "animatorLayersData (updTransition r f a) = animatorLayersData a"
  by (cases r) (simp_all add: updTransition_def split: option.splits)



lemma update_runs:
  "update X dt a = Inr a' \<Longrightarrow> speed a \<noteq> 0 \<Longrightarrow> animatorController a = Some layers
   \<Longrightarrow> runAll (enumerate 0 layers) (updateStep X (dt * speed a)) a = Inr a'"
  by (simp add: update_def)

lemma fixed_update_promotes:
  assumes run: "runAll (enumerate 0 layers) (updateStep X d) a = Inr a'"
    and i: "i < length layers"
    and fixed: "layerState (layerAt X a i) = FixedCrossFading"
    and reached: "crossDone (poseTransitionAt X d a i)"
  shows "\<exists>ds. state (destRecord X a i) = Some ds
    \<and> layerState (layerAt X a' i) = FixedCrossFading
    \<and> srcPlayData (layerAt X a' i) = destPlayData (layerAt X a i)
    \<and> destPlayData (layerAt X a' i) = destPlayData (layerAt X a i)
    \<and> playState (srcRecord X a' i) = Some PlayState.Playing
    \<and> state (srcRecord X a' i) = Some ds
    \<and> frameTime (srcRecord X a' i) = crossFrameTime (poseTransitionAt X d a i) (states a ds)"
proof -
  let ?T = "poseTransitionAt X d a i"
  from split_at_layer [OF run i] obtain b b' where
    pre: "runAll (enumerate 0 (take i layers)) (updateStep X d) a = Inr b"
    and step: "updateStep X d (i, layers ! i) b = Inr b'"
    and lb: "animatorLayersData b i = animatorLayersData a i"
    and la: "animatorLayersData a' i = animatorLayersData b' i"
    and sts: "\<forall>s. clipEndTime (states b s) = clipEndTime (states a s)
            \<and> wrapMode (states b s) = wrapMode (states a s)"
    by (elim exE conjE) (rule that)
  have "i \<le> length layers"
    using i by simp
  from steps_before [OF this pre, THEN conjunct1]
  have "transitionForPose b = (advanced d ^^ fixedBefore X a i) (transitionForPose a)" .
  then have tb: "advanced d (transitionForPose b) = ?T"
    by (simp add: poseTransitionAt_def)
  have sb: "layerAt X b i = layerAt X a i"
    using lb by (simp add: layerAt_def)
  have sa: "layerAt X a' i = layerAt X b' i"
    using la by (simp add: layerAt_def)
  have fixed': "layerState (layerAt X b i) = FixedCrossFading"
    using fixed sb by simp
  have reached': "crossDone (advanced d (transitionForPose b))"
    using reached tb by simp
  from fixed_step_promotes [OF step fixed' reached'] obtain ds where
    "state (destRecord X b i) = Some ds"
    "layerState (layerAt X b' i) = FixedCrossFading"
    "srcPlayData (layerAt X b' i) = destPlayData (layerAt X b i)"
    "destPlayData (layerAt X b' i) = destPlayData (layerAt X b i)"
    "playState (srcRecord X b' i) = Some PlayState.Playing"
    "state (srcRecord X b' i) = Some ds"
    "frameTime (srcRecord X b' i) = crossFrameTime (advanced d (transitionForPose b)) (states b ds)"
    by (elim exE conjE) (rule that)
  moreover have "crossFrameTime ?T (states b ds) = crossFrameTime ?T (states a ds)"
    by (rule crossFrameTime_cong) (simp_all add: sts)
  ultimately have "state (destRecord X a i) = Some ds
    \<and> layerState (layerAt X a' i) = FixedCrossFading
    \<and> srcPlayData (layerAt X a' i) = destPlayData (layerAt X a i)
    \<and> destPlayData (layerAt X a' i) = destPlayData (layerAt X a i)
    \<and> playState (srcRecord X a' i) = Some PlayState.Playing
    \<and> state (srcRecord X a' i) = Some ds
    \<and> frameTime (srcRecord X a' i) = crossFrameTime ?T (states a ds)"
    unfolding srcRecord_def destRecord_def sa sb tb by simp
  then show ?thesis
    by (rule exI)
qed

section \<open>Running the example\<close>

lemmas model_defs = play_def crossFade_def update_def getAnimatorStateInfo_def findStateByName_def
  layerAt_def getAnimatorLayerData_def updLayer_def updPlayData_def getAnimatorStateData_def
  saveAnimatorStateData_def saveDefaultValues_def forDown_def bindR_def revertDefaultValue_def
  withOwner_def setOwner_def bindOwner_def clearCrossData_def addCrossCurveData_def
  prepareSrcCrossData_def prepareDestCrossData_def prepareCrossFading_def prepareStandbyCrossFading_def
  prepareFiexdPoseCrossFading_def updTransition_def getTransition_def addTransition_def crossFadeSwitch_def
  crossFrameTime_def crossWeightOf_def crossDone_def readAt_def nth_opt_def updatePlayingState_def
  updateCrossFade_def updateCrossFadeFromPose_def updateLayer_def advanceSrc_def updateStep_def
  Let_def advanced_def finishCrossFade_def finishCrossFadeFromPose_def playCurve_def crossCurve_def poseCurve_def curvesOf_def

lemmas example_defs = exampleExternals_def exampleAnimator_def exampleState_def exampleStates_def freshPlayData_def
  noOwners_def recordOf_def idlePlaying_def crossFadingToWalk_def
  halfWayToWalk_def walkPromoted_def crossFadingToRun_def fixedToRun_def walkPlaying_def

lemma run_play_idle: "play exampleExternals ''Idle'' 0 0 exampleAnimator = Inr idlePlaying"
  by (simp add: model_defs example_defs)

lemma run_cross_fade_walk: "crossFade exampleExternals ''Walk'' (1 / 2) 0 0 idlePlaying = Inr crossFadingToWalk"
  by (auto simp add: model_defs example_defs fun_eq_iff)

lemma run_update_first: "update exampleExternals 125 crossFadingToWalk = Inr halfWayToWalk"
  by (auto simp add: model_defs example_defs fun_eq_iff)

lemma run_update_second: "update exampleExternals 125 halfWayToWalk = Inr walkPromoted"
  by (auto simp add: model_defs example_defs fun_eq_iff)

lemma run_cross_fade_run: "crossFade exampleExternals ''Run'' (1 / 2) 0 0 walkPromoted = Inr crossFadingToRun"
  by (auto simp add: model_defs example_defs fun_eq_iff)

lemma run_update_stuck: "observe exampleExternals 0 (update exampleExternals 10000 crossFadingToRun)
   = Inr (CrossFading, Some 2, Num 10, Some Fading)"
  by (simp add: observe_def srcRecord_def model_defs example_defs)

lemma run_retarget_run: "crossFade exampleExternals ''Run'' (1 / 2) 0 0 crossFadingToWalk = Inr fixedToRun"
  by (auto simp add: model_defs example_defs fun_eq_iff)

lemma run_cross_fade_fixed: "crossFade exampleExternals ''Idle'' (1 / 2) 0 0 fixedToRun = Inl TypeError"
  by (simp add: model_defs example_defs)

lemma run_play_walk: "play exampleExternals ''Walk'' 0 0 exampleAnimator = Inr walkPlaying"
  by (auto simp add: model_defs example_defs fun_eq_iff)

lemma run_update_walk_past_end: "observe exampleExternals 0 (update exampleExternals 2000 walkPlaying)
   = Inr (LayerState.Playing, Some 1, Num (1 / 2), Some PlayState.Playing)"
  by (simp add: observe_def srcRecord_def model_defs example_defs)


lemma run_update_fixed: "observe exampleExternals 0 (update exampleExternals 500 fixedToRun)
   = Inr (FixedCrossFading, Some 2, Num (1 / 2), Some PlayState.Playing)"
  by (simp add: observe_def srcRecord_def model_defs example_defs)

lemma run_play_missing: "play exampleExternals ''Jump'' (- 1) 0 exampleAnimator = Inl TypeError"
  by (simp add: model_defs example_defs)

lemma run_play_walk_half:
  "observe exampleExternals 0 (play exampleExternals ''Walk'' 0 (1 / 2) exampleAnimator)
   = Inr (LayerState.Playing, Some 1, Num (1 / 4), Some PlayState.Playing)"
  by (simp add: observe_def srcRecord_def model_defs example_defs)

lemma run_cross_fade_long:
  "observe exampleExternals 0 (crossFade exampleExternals ''Walk'' 2 0 0 idlePlaying)
   = Inr (CrossFading, Some 0, Num 0, Some Fading)"
  by (simp add: observe_def srcRecord_def model_defs example_defs)

lemma observe_Inr: "observe X i r = Inr v \<Longrightarrow> \<exists>a. r = Inr a"
  by (cases r) (simp_all add: observe_def)

text \<open>
  Two more ways in which \<open>_getAnimatorStateInfo\<close> and \<open>_updateCrossFade\<close> throw, whatever
  the animator: a search over all layers whose first layer does not hold the name, and a
  cross-curve record with only a source or only a destination curve.
\<close>

lemma searchLayers_first_miss:
  "findStateByName (stateMachine l) stateName = None \<Longrightarrow>
   searchLayers (l # ls) stateName 0 = Inl TypeError"
  by simp

lemma crossCurve_one_sided:
  "curCurveIndex item = None \<or> nextCurveIndex item = None \<Longrightarrow>
   crossCurve X curClip nextClip srcSd dstSd curFt ft cw w j item a = Inl TypeError"
  by (auto simp: crossCurve_def readAt_def split: option.splits)

text \<open>
  The first cross-fade of the run does complete: after two updates of 125 ms the layer is
  \<open>Playing\<close> and its source is the record of \<open>Walk\<close>.
\<close>

lemma first_cross_fade_completes:
  "observe exampleExternals 0
     (bindR (bindR (bindR
        (play exampleExternals ''Idle'' 0 0 exampleAnimator)
        (crossFade exampleExternals ''Walk'' (1 / 2) 0 0))
        (update exampleExternals 125))
        (update exampleExternals 125))
   = Inr (LayerState.Playing, Some 1, Num (1 / 4), Some Crossing)"
proof -
  have "bindR (bindR (bindR
        (play exampleExternals ''Idle'' 0 0 exampleAnimator)
        (crossFade exampleExternals ''Walk'' (1 / 2) 0 0))
        (update exampleExternals 125))
        (update exampleExternals 125) = Inr walkPromoted"
    by (simp add: run_play_idle run_cross_fade_walk run_update_first run_update_second)
  then show ?thesis
    by (simp add: observe_def srcRecord_def layerAt_def walkPromoted_def recordOf_def)
qed

text \<open>
  A clip of length 0, and two layers taken to \<open>FixedCrossFading\<close> one after the other:
  both advance the pose transition in every update.
\<close>

lemmas two_defs = twoLayerRun_def layerOf_def halfSecond_def fixedToIdle_def twoFixed_def
  twoPromoted_def








lemma two_update_first:
  "update exampleExternals 500 twoFixed = Inr twoPromoted"
  by (auto simp add: model_defs example_defs two_defs fun_eq_iff split: PlayDataRef.splits)


section \<open>The claims\<close>

text \<open>
  C1. The claim has \<open>play\<close> and \<open>crossFade\<close> do nothing, without an error, whenever the
  name resolves to no state, also when the layer index is \<open>-1\<close> and all layers are
  searched. The search loop counts down from 0: when the first layer does not hold the
  name, the next read is \<open>layers[-1]\<close>, which is \<open>undefined\<close>, and both calls throw a
  \<open>TypeError\<close>. Here the name \<open>Jump\<close> is in no layer of the example.
\<close>

theorem unresolved_name_on_all_layers_throws:
  "play exampleExternals ''Jump'' (- 1) 0 exampleAnimator = Inl TypeError
   \<and> crossFade exampleExternals ''Jump'' (1 / 2) (- 1) 0 exampleAnimator = Inl TypeError"
  by (simp add: model_defs example_defs)

text \<open>
  C2. The claim has a clamped state stay at its end time with the source record
  \<open>Finished\<close> under every further \<open>update\<close>. \<open>update\<close> does mark the record \<open>Finished\<close>
  when it clamps the frame time, but the same call goes on to \<open>_updatePlayingState\<close>,
  which marks it \<open>Playing\<close> again. After playing the clamped state \<open>Walk\<close> (0.5 s) and
  one \<open>update\<close> of 2000 ms, the frame time is 0.5 and the play state is \<open>Playing\<close>.
\<close>

theorem finished_is_overwritten:
  "observe exampleExternals 0
     (bindR (play exampleExternals ''Walk'' 0 0 exampleAnimator)
        (update exampleExternals 2000))
   = Inr (LayerState.Playing, Some 1, Num (1 / 2), Some PlayState.Playing)"
  by (simp add: run_play_walk run_update_walk_past_end)

text \<open>
  C3. The claim has every cross-fading layer return to \<open>Playing\<close>, with the destination
  as the new source, once the updates add up to the duration of the transition. A
  finished cross-fade leaves the layer's two references on one record, so the next
  \<open>crossFade\<close> writes the destination state into the source record too, and \<open>update\<close>
  then looks for the transition in the destination state's \<open>transitions\<close>. Here \<open>Idle\<close> is
  played and cross-faded to \<open>Walk\<close> (0.25 s, finished by two updates of 125 ms); the
  cross-fade to \<open>Run\<close> that follows lasts 0.5 s, and after an update of 10000 ms the layer
  is still \<open>CrossFading\<close> and the source record still \<open>Fading\<close>.
\<close>

theorem second_cross_fade_never_completes:
  "observe exampleExternals 0
     (bindR (bindR (bindR (bindR (bindR
        (play exampleExternals ''Idle'' 0 0 exampleAnimator)
        (crossFade exampleExternals ''Walk'' (1 / 2) 0 0))
        (update exampleExternals 125))
        (update exampleExternals 125))
        (crossFade exampleExternals ''Run'' (1 / 2) 0 0))
        (update exampleExternals 10000))
   = Inr (CrossFading, Some 2, Num 10, Some Fading)"
  by (simp add: run_play_idle run_cross_fade_walk run_update_first run_update_second
      run_cross_fade_run run_update_stuck)

text \<open>
  C4. The claim has the diff computation dispatch on all five value kinds, with a
  \<open>Vector4\<close> curve producing the \<open>Vector4\<close> diff. In the code the label that should
  select \<open>_calculateVector4Diff\<close> repeats \<open>Vector3\<close>, so for a \<open>Vector4\<close> tag no
  branch runs: whatever the property and the values, the animator is left as it was, and
  \<open>_diffValueFromBasePose\<close> still refers to the result of an earlier diff (or to nothing).
\<close>

theorem vector4_diff_is_skipped:
  "calculateDiff X Vector4 property sVal dVal a = Inr a"
  by (simp add: calculateDiff_def)

text \<open>
  C5. The claim has \<open>crossFade\<close> on a layer that is \<open>FixedCrossFading\<close> complete without
  an error and set the duration and offset of the transition. That case of the \<open>switch\<close>
  assigns no transition, so the assignment of the duration throws a \<open>TypeError\<close>. Here
  \<open>Idle\<close> is played, cross-faded to \<open>Walk\<close> and, before any update, to \<open>Run\<close>, which
  makes the layer \<open>FixedCrossFading\<close>; the next \<open>crossFade\<close> throws.
\<close>

theorem cross_fade_while_fixed_throws:
  "bindR (bindR (bindR
     (play exampleExternals ''Idle'' 0 0 exampleAnimator)
     (crossFade exampleExternals ''Walk'' (1 / 2) 0 0))
     (crossFade exampleExternals ''Run'' (1 / 2) 0 0))
     (crossFade exampleExternals ''Idle'' (1 / 2) 0 0)
   = Inl TypeError"
  by (simp add: run_play_idle run_cross_fade_walk run_retarget_run run_cross_fade_fixed)

text \<open>
  C6. When the name resolves to a state and \<open>play\<close> returns, the layer is \<open>Playing\<close> and
  its source record holds that state, is \<open>Playing\<close>, and has the frame time
  \<open>clipLength * normalizedTimeOffset\<close> (so 0 for the offset 0); this holds for every
  offset.
\<close>

theorem play_sets_source_record:
  assumes resolved: "getAnimatorStateInfo stateName layerIndex a = Inr (vi, Some s)"
    and returns: "play X stateName layerIndex t a = Inr a'"
  shows "\<exists>cl. clip (states a s) = Some cl
    \<and> layerState (layerAt X a' (nat vi)) = LayerState.Playing
    \<and> state (srcRecord X a' (nat vi)) = Some s
    \<and> frameTime (srcRecord X a' (nat vi)) = Num (clipLength cl * t)
    \<and> playState (srcRecord X a' (nat vi)) = Some PlayState.Playing"
proof -
  let ?i = "nat vi"
  let ?a1 = "getAnimatorLayerData X ?i a"
  let ?src = "srcPlayData (layerAt X ?a1 ?i)"
  let ?pd = "playData (layerAt X ?a1 ?i) ?src"
  let ?F = "\<lambda>sd cl d. (updPlayData ?src
                           (\<lambda>p. p\<lparr>state := Some s, frameTime := Num (clipLength cl * t),
                                   playState := Some PlayState.Playing,
                                   stateData := Some sd\<rparr>) d)
                        \<lparr>layerState := LayerState.Playing\<rparr>"
  have "bindR (if state ?pd \<noteq> None \<and> state ?pd \<noteq> Some s
               then revertDefaultValue ?pd ?a1 else Inr ?a1) (\<lambda>a2.
          bindR (getAnimatorStateData X stateName s ?i a2) (\<lambda>(sd, a3).
            (case clip (states a3 s) of
               None \<Rightarrow> Inl TypeError
             | Some cl \<Rightarrow> saveDefaultValues X sd (updLayer ?i (?F sd cl) a3)))) = Inr a'"
    using returns
    by (simp only: play_def resolved Let_def bindR_simps prod.case option.case)
  then obtain a2 where
    a2: "(if state ?pd \<noteq> None \<and> state ?pd \<noteq> Some s
          then revertDefaultValue ?pd ?a1 else Inr ?a1) = Inr a2"
    and "bindR (getAnimatorStateData X stateName s ?i a2) (\<lambda>(sd, a3).
            (case clip (states a3 s) of
               None \<Rightarrow> Inl TypeError
             | Some cl \<Rightarrow> saveDefaultValues X sd (updLayer ?i (?F sd cl) a3))) = Inr a'"
    by (blast dest: bindR_Inr)
  then obtain sd a3 where
    a3: "getAnimatorStateData X stateName s ?i a2 = Inr (sd, a3)"
    and "(case clip (states a3 s) of
               None \<Rightarrow> Inl TypeError
             | Some cl \<Rightarrow> saveDefaultValues X sd (updLayer ?i (?F sd cl) a3)) = Inr a'"
    by (auto dest!: bindR_Inr)
  then obtain cl where
    cl: "clip (states a3 s) = Some cl"
    and a': "saveDefaultValues X sd (updLayer ?i (?F sd cl) a3) = Inr a'"
    by (auto split: option.splits)
  have k12: "keepsPlayback ?a1 a2"
    using a2 by (auto split: if_splits dest: revertDefaultValue_keeps)
  then have l2: "animatorLayersData a2 ?i = Some (layerAt X a ?i)"
    by (simp add: keepsPlayback_def)
  from getAnimatorStateData_result(7) [OF a3 l2]
  obtain m where l3: "animatorLayersData a3 ?i = Some ((layerAt X a ?i)\<lparr>animatorStateDataMap := m\<rparr>)"
    by blast
  have st: "states a3 = states a"
    using getAnimatorStateData_result(1) [OF a3] k12 by (simp add: keepsPlayback_def)
  from saveDefaultValues_keeps [OF a']
  have "layerAt X a' ?i = layerAt X (updLayer ?i (?F sd cl) a3) ?i"
    by (rule layerAt_keeps)
  then show ?thesis
    using cl st by (simp add: layerAt_updLayer [OF l3] srcRecord_def updPlayData_def)
qed

theorem play_sets_source_record_witness:
  "getAnimatorStateInfo ''Walk'' 0 exampleAnimator = Inr (0, Some 1)
   \<and> (\<exists>a'. play exampleExternals ''Walk'' 0 (1 / 2) exampleAnimator = Inr a'
         \<and> layerState (layerAt exampleExternals a' 0) = LayerState.Playing
         \<and> frameTime (srcRecord exampleExternals a' 0) = Num (1 / 4)
         \<and> playState (srcRecord exampleExternals a' 0) = Some PlayState.Playing)"
proof -
  have resolved: "getAnimatorStateInfo ''Walk'' 0 exampleAnimator = Inr (0, Some 1)"
    by (simp add: getAnimatorStateInfo_def findStateByName_def exampleAnimator_def)
  from observe_Inr [OF run_play_walk_half] obtain a' where
    returns: "play exampleExternals ''Walk'' 0 (1 / 2) exampleAnimator = Inr a'"
    by blast
  from play_sets_source_record [OF resolved returns] have
    "layerState (layerAt exampleExternals a' 0) = LayerState.Playing
     \<and> frameTime (srcRecord exampleExternals a' 0) = Num (1 / 4)
     \<and> playState (srcRecord exampleExternals a' 0) = Some PlayState.Playing"
    by (auto simp: exampleAnimator_def exampleStates_def exampleState_def)
  with resolved returns show ?thesis
    by blast
qed

text \<open>
  C7. For a \<open>Scale\<close> property whose base components are not zero, the diff from the base
  pose is the component-wise ratio of the evaluated value to the base value (for a
  \<open>Vector3\<close>, and likewise for a number and a \<open>Vector2\<close>), and applying it multiplies
  the target's scale, as weighted by \<open>calScaleWeight\<close>, component by component.
\<close>

theorem additive_scale_is_ratio:
  assumes "bx \<noteq> 0" and "by \<noteq> 0" and "bz \<noteq> 0"
  shows "(\<exists>a1 a2.
     calculateDiff X Vector3 Scale (VVector3 (vec3 bx by bz)) (VVector3 (vec3 vx vy vz)) a
       = Inr a1
   \<and> diffValueFromBasePose a1 = Some Vector3Slot
   \<and> diffVector3FromBasePose a1 = vec3 (vx / bx) (vy / by) (vz / bz)
   \<and> updateAdditiveLayerValue X e Transform Scale (diffValueFromBasePose a1) w a1 = Inr a2
   \<and> scale (transforms a2 e) =
       \<lparr>x3 = jmul (x3 (calScaleWeight X (scale (transforms a e)) w)) (Num (vx / bx)),
        y3 = jmul (y3 (calScaleWeight X (scale (transforms a e)) w)) (Num (vy / by)),
        z3 = jmul (z3 (calScaleWeight X (scale (transforms a e)) w)) (Num (vz / bz))\<rparr>)
   \<and> (\<exists>a1. calculateDiff X Float Scale (VFloat (Num bx)) (VFloat (Num vx)) a = Inr a1
           \<and> diffFloatFromBasePose a1 = Num (vx / bx))
   \<and> (\<exists>a1. calculateDiff X Vector2 Scale (VVector2 \<lparr>x2 = Num bx, y2 = Num by\<rparr>)
                 (VVector2 \<lparr>x2 = Num vx, y2 = Num vy\<rparr>) a = Inr a1
           \<and> diffVector2FromBasePose a1 = \<lparr>x2 = Num (vx / bx), y2 = Num (vy / by)\<rparr>)"
  using assms
  by (simp add: calculateDiff_def calculateVector3Diff_def calculateFloatDiff_def
        calculateVector2Diff_def vec3_def updateAdditiveLayerValue_def
        slotAsVector3_def bindR_def setTransform_def Let_def)

text \<open>
  The example of the claim: base scale \<open>(2,2,2)\<close> and evaluated scale \<open>(4,4,4)\<close> give the
  diff \<open>(2,2,2)\<close>, and applied to the scale \<open>(1,1,1)\<close> at weight 1 the result is
  \<open>(2,2,2)\<close> (the weighting of the example leaves a scale unchanged).
\<close>

theorem additive_scale_is_ratio_witness:
  "\<exists>a1 a2.
     calculateDiff exampleExternals Vector3 Scale (VVector3 (vec3 2 2 2))
       (VVector3 (vec3 4 4 4)) exampleAnimator = Inr a1
   \<and> diffVector3FromBasePose a1 = vec3 2 2 2
   \<and> updateAdditiveLayerValue exampleExternals 0 Transform Scale
         (diffValueFromBasePose a1) 1 a1 = Inr a2
   \<and> scale (transforms a2 0) = vec3 2 2 2"
proof -
  have weighted:
    "calScaleWeight exampleExternals (scale (transforms exampleAnimator 0)) 1 = vec3 1 1 1"
    by (simp add: exampleExternals_def exampleAnimator_def)
  have nonzero: "(2::real) \<noteq> 0"
    by simp
  from additive_scale_is_ratio [OF nonzero nonzero nonzero,
      of exampleExternals 4 4 4 exampleAnimator 0 1, THEN conjunct1]
  obtain a1 a2 where
    "calculateDiff exampleExternals Vector3 Scale (VVector3 (vec3 2 2 2))
       (VVector3 (vec3 4 4 4)) exampleAnimator = Inr a1"
    "diffVector3FromBasePose a1 = vec3 (4 / 2) (4 / 2) (4 / 2)"
    "updateAdditiveLayerValue exampleExternals 0 Transform Scale
       (diffValueFromBasePose a1) 1 a1 = Inr a2"
    "scale (transforms a2 0) =
       \<lparr>x3 = jmul (x3 (vec3 1 1 1)) (Num (4 / 2)), y3 = jmul (y3 (vec3 1 1 1)) (Num (4 / 2)),
        z3 = jmul (z3 (vec3 1 1 1)) (Num (4 / 2))\<rparr>"
    unfolding weighted by blast
  then show ?thesis
    by (simp add: vec3_def)
qed




text \<open>
  C9. When the destination resolves and \<open>crossFade\<close> returns, the transition it has
  written has the offset \<open>clipLength * normalizedTimeOffset\<close> and the smaller of
  \<open>clipLength * normalizedTransitionDuration\<close> and \<open>clipEndTime - offset\<close> as its
  duration, which therefore does not exceed \<open>clipEndTime - offset\<close>. (A call on a layer
  that is \<open>FixedCrossFading\<close> does not return, see C5.)
\<close>

theorem crossFade_duration_clamped:
  assumes resolved: "getAnimatorStateInfo stateName layerIndex a = Inr (vi, Some s)"
    and returns: "crossFade X stateName nd layerIndex off a = Inr a'"
  shows "\<exists>cl t. clip (states a s) = Some cl
    \<and> configuredTransition X (nat vi) a a' = Some t
    \<and> offset t = clipLength cl * off
    \<and> duration t = min (clipLength cl * nd) (clipEndTime (states a s) - clipLength cl * off)
    \<and> duration t \<le> clipEndTime (states a s) - offset t"
proof -
  let ?i = "nat vi"
  let ?a1 = "getAnimatorLayerData X ?i a"
  let ?ls = "layerState (layerAt X ?a1 ?i)"
  let ?src = "srcPlayData (layerAt X ?a1 ?i)"
  let ?dst = "destPlayData (layerAt X ?a1 ?i)"
  let ?st = "state (playData (layerAt X ?a1 ?i) ?src)"
  let ?G = "\<lambda>sd. updPlayData ?dst
                    (\<lambda>p. p\<lparr>state := Some s, frameTime := Num 0,
                            playState := Some Crossing, stateData := Some sd\<rparr>)"
  let ?f = "\<lambda>a4 cl t. t\<lparr>duration :=
                          (if clipLength cl * nd > clipEndTime (states a4 s) - clipLength cl * off
                           then clipEndTime (states a4 s) - clipLength cl * off
                           else clipLength cl * nd),
                        offset := clipLength cl * off\<rparr>"
  have "bindR (getAnimatorStateData X stateName s ?i ?a1) (\<lambda>(sd, a2).
          bindR (saveDefaultValues X sd (updLayer ?i (?G sd) a2)) (\<lambda>a3.
          bindR (crossFadeSwitch X ?ls ?i ?src ?st a3) (\<lambda>(transition, a4).
            (case clip (states a4 s) of
               None \<Rightarrow> Inl TypeError
             | Some cl \<Rightarrow>
                 (case transition of
                    None \<Rightarrow> Inl TypeError
                  | Some r \<Rightarrow> Inr (updTransition r (?f a4 cl) a4)))))) = Inr a'"
    using returns
    by (simp only: crossFade_def resolved Let_def bindR_simps prod.case option.case)
  then obtain sd a2 where
    a2: "getAnimatorStateData X stateName s ?i ?a1 = Inr (sd, a2)"
    and "bindR (saveDefaultValues X sd (updLayer ?i (?G sd) a2)) (\<lambda>a3.
          bindR (crossFadeSwitch X ?ls ?i ?src ?st a3) (\<lambda>(transition, a4).
            (case clip (states a4 s) of
               None \<Rightarrow> Inl TypeError
             | Some cl \<Rightarrow>
                 (case transition of
                    None \<Rightarrow> Inl TypeError
                  | Some r \<Rightarrow> Inr (updTransition r (?f a4 cl) a4))))) = Inr a'"
    by (auto dest!: bindR_Inr)
  then obtain a3 where
    a3: "saveDefaultValues X sd (updLayer ?i (?G sd) a2) = Inr a3"
    and "bindR (crossFadeSwitch X ?ls ?i ?src ?st a3) (\<lambda>(transition, a4).
            (case clip (states a4 s) of
               None \<Rightarrow> Inl TypeError
             | Some cl \<Rightarrow>
                 (case transition of
                    None \<Rightarrow> Inl TypeError
                  | Some r \<Rightarrow> Inr (updTransition r (?f a4 cl) a4)))) = Inr a'"
    by (blast dest: bindR_Inr)
  then obtain tr a4 cl r where
    sw: "crossFadeSwitch X ?ls ?i ?src ?st a3 = Inr (Some r, a4)"
    and cl: "clip (states a4 s) = Some cl"
    and a': "a' = updTransition r (?f a4 cl) a4"
    by (auto dest!: bindR_Inr split: option.splits)
  have s3: "states a3 = states a" and p3: "transitionForPose a3 = transitionForPose a"
    using getAnimatorStateData_result(1,2) [OF a2] saveDefaultValues_keeps [OF a3]
    by (simp_all add: keepsPlayback_def)
  have ls: "?ls = layerState (layerAt X a ?i)" and st: "?st = state (srcRecord X a ?i)"
    by (simp_all add: srcRecord_def)
  show ?thesis
  proof (cases "layerState (layerAt X a ?i)")
    case Standby
    with crossFadeSwitch_pose [OF sw] s3 p3 cl a' show ?thesis
      by (simp add: configuredTransition_def updTransition_def min_def)
  next
    case CrossFading
    with crossFadeSwitch_pose [OF sw] s3 p3 cl a' show ?thesis
      by (simp add: configuredTransition_def updTransition_def min_def)
  next
    case FixedCrossFading
    with crossFadeSwitch_fixed [of X ?i ?src ?st a3 "Some r" a4] sw show ?thesis
      by simp
  next
    case Playing
    with sw have sw': "crossFadeSwitch X LayerState.Playing ?i ?src ?st a3 = Inr (Some r, a4)"
      by simp
    from crossFadeSwitch_playing [OF sw'] obtain s0 where
      s0: "state (srcRecord X a ?i) = Some s0"
      and r: "r = OfState s0 (length (transitions (states a s0)))"
      and s4: "states a4 = (states a)
            (s0 := (states a s0)\<lparr>transitions := transitions (states a s0) @ [newTransition X]\<rparr>)"
      using s3 st by auto
    from s4 cl have cl0: "clip (states a s) = Some cl"
      and ce: "clipEndTime (states a4 s) = clipEndTime (states a s)"
      by (auto split: if_splits)
    show ?thesis
      using Playing s0 cl0 ce
      by (simp add: configuredTransition_def a' r s4 updTransition_def nth_opt_def min_def)
  qed
qed

theorem crossFade_duration_clamped_witness:
  "getAnimatorStateInfo ''Walk'' 0 idlePlaying = Inr (0, Some 1)
   \<and> (\<exists>a' t. crossFade exampleExternals ''Walk'' 2 0 0 idlePlaying = Inr a'
         \<and> configuredTransition exampleExternals 0 idlePlaying a' = Some t
         \<and> offset t = 0 \<and> duration t = 1 / 2)"
proof -
  have resolved: "getAnimatorStateInfo ''Walk'' 0 idlePlaying = Inr (0, Some 1)"
    by (simp add: getAnimatorStateInfo_def findStateByName_def example_defs)
  from observe_Inr [OF run_cross_fade_long] obtain a' where
    returns: "crossFade exampleExternals ''Walk'' 2 0 0 idlePlaying = Inr a'"
    by blast
  from crossFade_duration_clamped [OF resolved returns] obtain t where
    "configuredTransition exampleExternals 0 idlePlaying a' = Some t"
    "offset t = 0" "duration t = 1 / 2"
    by (auto simp: example_defs)
  with resolved returns show ?thesis
    by blast
qed

text \<open>
  C10. No \<open>update\<close> moves a layer out of \<open>FixedCrossFading\<close>. And when, during an
  \<open>update\<close>, the pose transition reaches the weight 1 at the step of such a layer
  (\<open>poseTransitionAt\<close>: the layers before it that are \<open>FixedCrossFading\<close> advance the
  same transition), then after the update the destination record is the source of the
  layer, it is \<open>Playing\<close> and has the frame time computed from that transition, and the
  layer is still \<open>FixedCrossFading\<close>.
\<close>

theorem fixed_cross_fade_stays_fixed:
  "(update X dt a = Inr a' \<and> layerState (layerAt X a k) = FixedCrossFading
      \<longrightarrow> layerState (layerAt X a' k) = FixedCrossFading)
   \<and> (update X dt a = Inr a' \<and> speed a \<noteq> 0 \<and> animatorController a = Some layers
       \<and> i < length layers \<and> layerState (layerAt X a i) = FixedCrossFading
       \<and> crossDone (poseTransitionAt X (dt * speed a) a i)
      \<longrightarrow> crossWeightOf (poseTransitionAt X (dt * speed a) a i) = Num 1
        \<and> (\<exists>ds. state (destRecord X a i) = Some ds
              \<and> layerState (layerAt X a' i) = FixedCrossFading
              \<and> srcPlayData (layerAt X a' i) = destPlayData (layerAt X a i)
              \<and> destPlayData (layerAt X a' i) = destPlayData (layerAt X a i)
              \<and> playState (srcRecord X a' i) = Some PlayState.Playing
              \<and> state (srcRecord X a' i) = Some ds
              \<and> frameTime (srcRecord X a' i)
                  = crossFrameTime (poseTransitionAt X (dt * speed a) a i) (states a ds)))"
proof (intro conjI impI)
  assume "update X dt a = Inr a' \<and> layerState (layerAt X a k) = FixedCrossFading"
  then show "layerState (layerAt X a' k) = FixedCrossFading"
    by (auto dest: update_keeps_fixed)
next
  let ?d = "dt * speed a"
  let ?T = "poseTransitionAt X ?d a i"
  assume h: "update X dt a = Inr a' \<and> speed a \<noteq> 0 \<and> animatorController a = Some layers
       \<and> i < length layers \<and> layerState (layerAt X a i) = FixedCrossFading
       \<and> crossDone ?T"
  then have i: "i < length layers"
    and fixed: "layerState (layerAt X a i) = FixedCrossFading"
    and reached: "crossDone ?T"
    by simp_all
  from h have run: "runAll (enumerate 0 layers) (updateStep X ?d) a = Inr a'"
    by (simp add: update_runs)
  from reached show "crossWeightOf ?T = Num 1"
    by (simp add: crossDone_def crossWeightOf_def)
  from fixed_update_promotes [OF run i fixed reached]
  show "\<exists>ds. state (destRecord X a i) = Some ds
              \<and> layerState (layerAt X a' i) = FixedCrossFading
              \<and> srcPlayData (layerAt X a' i) = destPlayData (layerAt X a i)
              \<and> destPlayData (layerAt X a' i) = destPlayData (layerAt X a i)
              \<and> playState (srcRecord X a' i) = Some PlayState.Playing
              \<and> state (srcRecord X a' i) = Some ds
              \<and> frameTime (srcRecord X a' i) = crossFrameTime ?T (states a ds)" .
qed

text \<open>
  Two instances: the single layer of the example, retargeted to \<open>Run\<close>, where an update
  of 500 ms ends the pose transition of 0.5 s; and layer 1 of the two layers that are
  \<open>FixedCrossFading\<close>, for which the same update has advanced the pose transition twice,
  so that its record of \<open>Idle\<close> is promoted at 1.
\<close>

theorem fixed_cross_fade_stays_fixed_witness:
  "(\<exists>a'. update exampleExternals 500 fixedToRun = Inr a'
       \<and> crossWeightOf (poseTransitionAt exampleExternals 500 fixedToRun 0) = Num 1
       \<and> layerState (layerAt exampleExternals a' 0) = FixedCrossFading
       \<and> srcPlayData (layerAt exampleExternals fixedToRun 0) = RecordA
       \<and> srcPlayData (layerAt exampleExternals a' 0) = RecordB
       \<and> playState (srcRecord exampleExternals a' 0) = Some PlayState.Playing
       \<and> state (srcRecord exampleExternals a' 0) = Some 2
       \<and> frameTime (srcRecord exampleExternals a' 0) = Num (1 / 2))
   \<and> (update exampleExternals 500 twoFixed = Inr twoPromoted
      \<and> poseTransitionAt exampleExternals 500 twoFixed 1 = halfSecond 1
      \<and> layerState (layerAt exampleExternals twoPromoted 1) = FixedCrossFading
      \<and> srcPlayData (layerAt exampleExternals twoFixed 1) = RecordA
      \<and> srcPlayData (layerAt exampleExternals twoPromoted 1) = RecordB
      \<and> playState (srcRecord exampleExternals twoPromoted 1) = Some PlayState.Playing
      \<and> state (srcRecord exampleExternals twoPromoted 1) = Some 0
      \<and> frameTime (srcRecord exampleExternals twoPromoted 1) = Num 1)"
proof

  from observe_Inr [OF run_update_fixed] obtain a' where
    run: "update exampleExternals 500 fixedToRun = Inr a'"
    by blast
  have fixed: "layerState (layerAt exampleExternals fixedToRun 0) = FixedCrossFading"
    and src: "srcPlayData (layerAt exampleExternals fixedToRun 0) = RecordA"
    and dst: "destPlayData (layerAt exampleExternals fixedToRun 0) = RecordB"
    and ds: "state (destRecord exampleExternals fixedToRun 0) = Some 2"
    by (simp_all add: example_defs layerAt_def destRecord_def)
  have sp: "speed fixedToRun = 1"
    and ctl: "animatorController fixedToRun
      = Some [\<lparr>weight = 1, blendingMode = Override,
                stateMachine = [(''Idle'', 0), (''Walk'', 1), (''Run'', 2)]\<rparr>]"
    by (simp_all add: example_defs)
  have T: "poseTransitionAt exampleExternals 500 fixedToRun 0
             = \<lparr>duration = 1 / 2, offset = 0, crossFadeFrameTime = 1 / 2\<rparr>"
    by (simp add: poseTransitionAt_def fixedBefore_def advanced_def example_defs)
  have reached: "crossDone (poseTransitionAt exampleExternals (500 * speed fixedToRun) fixedToRun 0)"
    unfolding sp by (simp add: T crossDone_def)
  have ft: "crossFrameTime (poseTransitionAt exampleExternals 500 fixedToRun 0) (states fixedToRun 2)
              = Num (1 / 2)"
    unfolding T by (simp add: crossFrameTime_def example_defs)
  from fixed_cross_fade_stays_fixed
    [of exampleExternals 500 fixedToRun a' 0 _ 0, THEN conjunct2, rule_format]
    run sp ctl fixed reached
  have "crossWeightOf (poseTransitionAt exampleExternals (500 * speed fixedToRun) fixedToRun 0) = Num 1
    \<and> (\<exists>ds. state (destRecord exampleExternals fixedToRun 0) = Some ds
          \<and> layerState (layerAt exampleExternals a' 0) = FixedCrossFading
          \<and> srcPlayData (layerAt exampleExternals a' 0)
              = destPlayData (layerAt exampleExternals fixedToRun 0)
          \<and> destPlayData (layerAt exampleExternals a' 0)
              = destPlayData (layerAt exampleExternals fixedToRun 0)
          \<and> playState (srcRecord exampleExternals a' 0) = Some PlayState.Playing
          \<and> state (srcRecord exampleExternals a' 0) = Some ds
          \<and> frameTime (srcRecord exampleExternals a' 0)
              = crossFrameTime
                  (poseTransitionAt exampleExternals (500 * speed fixedToRun) fixedToRun 0)
                  (states fixedToRun ds))"
    by simp
  then show "\<exists>a'. update exampleExternals 500 fixedToRun = Inr a'
        \<and> crossWeightOf (poseTransitionAt exampleExternals 500 fixedToRun 0) = Num 1
        \<and> layerState (layerAt exampleExternals a' 0) = FixedCrossFading
        \<and> srcPlayData (layerAt exampleExternals fixedToRun 0) = RecordA
        \<and> srcPlayData (layerAt exampleExternals a' 0) = RecordB
        \<and> playState (srcRecord exampleExternals a' 0) = Some PlayState.Playing
        \<and> state (srcRecord exampleExternals a' 0) = Some 2
        \<and> frameTime (srcRecord exampleExternals a' 0) = Num (1 / 2)"
    using run src unfolding sp ds dst by (auto simp: ft)
next
  note run = two_update_first
  have fixed: "layerState (layerAt exampleExternals twoFixed 1) = FixedCrossFading"
    and src: "srcPlayData (layerAt exampleExternals twoFixed 1) = RecordA"
    and dst: "destPlayData (layerAt exampleExternals twoFixed 1) = RecordB"
    and ds: "state (destRecord exampleExternals twoFixed 1) = Some 0"
    by (simp_all add: two_defs example_defs layerAt_def destRecord_def)
  have sp: "speed twoFixed = 1"
    and ctl: "animatorController twoFixed
      = Some [\<lparr>weight = 1, blendingMode = Override,
                stateMachine = [(''Idle'', 0), (''Walk'', 1), (''Run'', 2)]\<rparr>,
              \<lparr>weight = 1, blendingMode = Override,
                stateMachine = [(''Idle'', 0), (''Walk'', 1), (''Run'', 2)]\<rparr>]"
    by (simp_all add: two_defs example_defs)
  have T: "poseTransitionAt exampleExternals 500 twoFixed 1 = halfSecond 1"
    by (simp add: poseTransitionAt_def fixedBefore_def advanced_def layerAt_def
        two_defs example_defs)
  have reached: "crossDone (poseTransitionAt exampleExternals (500 * speed twoFixed) twoFixed 1)"
    unfolding sp mult_1_right T by (simp add: crossDone_def halfSecond_def)
  have ft: "crossFrameTime (halfSecond 1) (states twoFixed 0) = Num 1"
    by (simp add: crossFrameTime_def two_defs example_defs)
  from fixed_cross_fade_stays_fixed
    [of exampleExternals 500 twoFixed twoPromoted 1 _ 1, THEN conjunct2, rule_format]
    run sp ctl fixed reached
  have "\<exists>ds. state (destRecord exampleExternals twoFixed 1) = Some ds
          \<and> layerState (layerAt exampleExternals twoPromoted 1) = FixedCrossFading
          \<and> srcPlayData (layerAt exampleExternals twoPromoted 1)
              = destPlayData (layerAt exampleExternals twoFixed 1)
          \<and> destPlayData (layerAt exampleExternals twoPromoted 1)
              = destPlayData (layerAt exampleExternals twoFixed 1)
          \<and> playState (srcRecord exampleExternals twoPromoted 1) = Some PlayState.Playing
          \<and> state (srcRecord exampleExternals twoPromoted 1) = Some ds
          \<and> frameTime (srcRecord exampleExternals twoPromoted 1)
              = crossFrameTime
                  (poseTransitionAt exampleExternals (500 * speed twoFixed) twoFixed 1)
                  (states twoFixed ds)"
    by simp
  then show "update exampleExternals 500 twoFixed = Inr twoPromoted
      \<and> poseTransitionAt exampleExternals 500 twoFixed 1 = halfSecond 1
      \<and> layerState (layerAt exampleExternals twoPromoted 1) = FixedCrossFading
      \<and> srcPlayData (layerAt exampleExternals twoFixed 1) = RecordA
      \<and> srcPlayData (layerAt exampleExternals twoPromoted 1) = RecordB
      \<and> playState (srcRecord exampleExternals twoPromoted 1) = Some PlayState.Playing
      \<and> state (srcRecord exampleExternals twoPromoted 1) = Some 0
      \<and> frameTime (srcRecord exampleExternals twoPromoted 1) = Num 1"
    using run src T unfolding sp mult_1_right T ds dst by (auto simp: ft)
qed

end
